theory Spec2Isabelle
  imports Main "HOL-Library.Sublist"
begin

section \<open>Python strings\<close>

text \<open>
  A Python \<open>str\<close> is a sequence of Unicode code points, so it is modelled as a list of
  natural numbers. \<open>asc\<close> embeds an ASCII literal; the non-ASCII text of the templates is
  written as explicit code points. \<open>text_lines\<close> joins lines, each followed by a newline
  (code point 10): every template of the source ends with a newline.
\<close>

type_synonym str = "nat list"

definition asc :: "string \<Rightarrow> str" where
  "asc s = map of_char s"

definition text_lines :: "str list \<Rightarrow> str" where
  "text_lines ls = concat (map (\<lambda>l. l @ [10]) ls)"

text \<open>
  \<open>str.isspace\<close> for one code point: the characters CPython treats as whitespace.
  \<open>str.strip()\<close> removes them from both ends; \<open>content.strip()\<close> is truthy exactly
  when the result is not empty.
\<close>

definition isspace :: "nat \<Rightarrow> bool" where
  "isspace c \<longleftrightarrow>
     (9 \<le> c \<and> c \<le> 13) \<or> (28 \<le> c \<and> c \<le> 32) \<or> c = 0x85 \<or> c = 0xA0 \<or> c = 0x1680 \<or>
     (0x2000 \<le> c \<and> c \<le> 0x200A) \<or> c = 0x2028 \<or> c = 0x2029 \<or> c = 0x202F \<or> c = 0x205F \<or>
     c = 0x3000"

definition strip :: "str \<Rightarrow> str" where
  "strip s = rev (dropWhile isspace (rev (dropWhile isspace s)))"

section \<open>Exceptions\<close>

text \<open>
  Every exception the program can meet is a value. \<open>OSError\<close> stands for an operating
  system failure that does not depend on the state of the tree (permission denied, disk
  full); \<open>Unsupported\<close> marks replacement fields outside the part of the format grammar
  that is modelled (attribute access, indexing, conversions, format specifications).
\<close>

datatype error =
    FileExistsError | FileNotFoundError | NotADirectoryError | IsADirectoryError | OSError
  | ValueError | KeyError str | IndexError | Unsupported

section \<open>str.format\<close>

definition lbrace :: nat where
  "lbrace = 123"

definition rbrace :: nat where
  "rbrace = 125"

text \<open>
  A replacement field is modelled when it is a plain keyword name: ASCII, without
  \<open>{\<close>, \<open>.\<close>, \<open>[\<close>, \<open>!\<close> or \<open>:\<close>. An empty or numeric name asks for a positional
  argument, and \<open>format\<close> is only ever called with keyword arguments, so that is an
  IndexError; an unknown keyword is a KeyError.
\<close>

definition simple_field :: "str \<Rightarrow> bool" where
  "simple_field n \<longleftrightarrow>
     list_all (\<lambda>c. c < 128 \<and> c \<noteq> lbrace \<and> c \<noteq> 46 \<and> c \<noteq> 91 \<and> c \<noteq> 33 \<and> c \<noteq> 58) n"

definition get_field :: "(str \<rightharpoonup> str) \<Rightarrow> str \<Rightarrow> error + str" where
  "get_field kwargs n =
     (if \<not> simple_field n then Inl Unsupported
      else if list_all (\<lambda>c. 48 \<le> c \<and> c \<le> 57) n then Inl IndexError
      else case kwargs n of None \<Rightarrow> Inl (KeyError n) | Some v \<Rightarrow> Inr v)"

definition emit :: "str \<Rightarrow> error + str \<Rightarrow> error + str" where
  "emit v r = (case r of Inl e \<Rightarrow> Inl e | Inr out \<Rightarrow> Inr (v @ out))"

text \<open>
  The scanner of \<open>str.format\<close>, left to right: literal text is copied; \<open>{{\<close> and \<open>}}\<close>
  give one brace; a single \<open>}\<close>, or a \<open>{\<close> at the very end, is a ValueError; any other
  \<open>{\<close> opens a replacement field that runs to the next \<open>}\<close> (a ValueError when there is
  none) and is replaced by the value of the keyword argument it names.
\<close>

fun format :: "(str \<rightharpoonup> str) \<Rightarrow> str \<Rightarrow> error + str"
  and parse_field :: "(str \<rightharpoonup> str) \<Rightarrow> str \<Rightarrow> str \<Rightarrow> error + str" where
  "format kwargs [] = Inr []"
| "format kwargs (c # cs) =
     (if c = lbrace then
        (case cs of [] \<Rightarrow> Inl ValueError
         | d # ds \<Rightarrow> if d = lbrace then emit [lbrace] (format kwargs ds)
                     else parse_field kwargs [] cs)
      else if c = rbrace then
        (case cs of [] \<Rightarrow> Inl ValueError
         | d # ds \<Rightarrow> if d = rbrace then emit [rbrace] (format kwargs ds) else Inl ValueError)
      else emit [c] (format kwargs cs))"
| "parse_field kwargs n [] = Inl ValueError"
| "parse_field kwargs n (c # cs) =
     (if c = rbrace then
        (case get_field kwargs n of Inl e \<Rightarrow> Inl e | Inr v \<Rightarrow> emit v (format kwargs cs))
      else parse_field kwargs (n @ [c]) cs)"

text \<open>
  The keyword arguments of both \<open>format\<close> calls of the source:
  \<open>entity_name\<close>, \<open>entity_name_lower\<close> and \<open>project_name\<close>.
\<close>

definition kwargs :: "str \<Rightarrow> str \<Rightarrow> str \<Rightarrow> (str \<rightharpoonup> str)" where
  "kwargs entity_name entity_name_lower project_name =
     map_of [(asc ''entity_name'', entity_name), (asc ''entity_name_lower'', entity_name_lower),
             (asc ''project_name'', project_name)]"

text \<open>
  A text without braces, and the braces of a text in the order they stand in it.
\<close>

definition brace_free :: "str \<Rightarrow> bool" where
  "brace_free s \<longleftrightarrow> list_all (\<lambda>c. c \<noteq> lbrace \<and> c \<noteq> rbrace) s"

definition braces_of :: "str \<Rightarrow> str" where
  "braces_of s = filter (\<lambda>c. c = lbrace \<or> c = rbrace) s"

section \<open>The structure specification and the template catalog\<close>

text \<open>
  A value of the nested dict \<open>PROJECT_STRUCTURE\<close> is either another dict (a directory) or
  a string (the content of a file). A dict is the list of its items in insertion order,
  which is the order \<open>items()\<close> iterates in; the keys of a dict are distinct
  (\<open>distinct_keys\<close>).
\<close>

datatype content = Mapping "(str \<times> content) list" | Text str

type_synonym structure_spec = "(str \<times> content) list"

fun distinct_keys :: "structure_spec \<Rightarrow> bool" where
  "distinct_keys [] = True"
| "distinct_keys ((name, Mapping sub) # rest) =
     (name \<notin> fst ` set rest \<and> distinct_keys sub \<and> distinct_keys rest)"
| "distinct_keys ((name, Text t) # rest) = (name \<notin> fst ` set rest \<and> distinct_keys rest)"

definition docs_README :: "str" where
  \<open>docs_README = text_lines
    [asc ''# '' @ [0x9879, 0x76EE, 0x6587, 0x6863],
     [],
     [0x8BF7, 0x5728, 0x6B64, 0x5904, 0x6DFB, 0x52A0, 0x9879, 0x76EE, 0x7279, 0x5B9A, 0x7684, 0x6587, 0x6863, 0x3002]]\<close>


definition PROJECT_STRUCTURE :: structure_spec where
  "PROJECT_STRUCTURE =
    [(asc ''src'', Mapping
       [(asc ''__init__.py'', Text (asc '''')),
        (asc ''domain'', Mapping
          [(asc ''__init__.py'', Text (asc '''')),
           (asc ''entities'', Mapping [(asc ''__init__.py'', Text (asc ''''))]),
           (asc ''value_objects'', Mapping [(asc ''__init__.py'', Text (asc ''''))]),
           (asc ''aggregates'', Mapping [(asc ''__init__.py'', Text (asc ''''))]),
           (asc ''events'', Mapping [(asc ''__init__.py'', Text (asc ''''))]),
           (asc ''repositories'', Mapping [(asc ''__init__.py'', Text (asc ''''))]),
           (asc ''services'', Mapping [(asc ''__init__.py'', Text (asc ''''))])]),
        (asc ''application'', Mapping
          [(asc ''__init__.py'', Text (asc '''')),
           (asc ''commands'', Mapping [(asc ''__init__.py'', Text (asc ''''))]),
           (asc ''queries'', Mapping [(asc ''__init__.py'', Text (asc ''''))]),
           (asc ''handlers'', Mapping [(asc ''__init__.py'', Text (asc ''''))]),
           (asc ''services'', Mapping [(asc ''__init__.py'', Text (asc ''''))]),
           (asc ''dtos'', Mapping [(asc ''__init__.py'', Text (asc ''''))])]),
        (asc ''infrastructure'', Mapping
          [(asc ''__init__.py'', Text (asc '''')),
           (asc ''persistence'', Mapping [(asc ''__init__.py'', Text (asc ''''))]),
           (asc ''repositories'', Mapping [(asc ''__init__.py'', Text (asc ''''))]),
           (asc ''messaging'', Mapping [(asc ''__init__.py'', Text (asc ''''))]),
           (asc ''external_services'', Mapping [(asc ''__init__.py'', Text (asc ''''))])]),
        (asc ''presentation'', Mapping
          [(asc ''__init__.py'', Text (asc '''')),
           (asc ''api'', Mapping [(asc ''__init__.py'', Text (asc ''''))]),
           (asc ''cli'', Mapping [(asc ''__init__.py'', Text (asc ''''))]),
           (asc ''web'', Mapping [(asc ''__init__.py'', Text (asc ''''))])])]),
     (asc ''tests'', Mapping
       [(asc ''__init__.py'', Text (asc '''')),
        (asc ''unit'', Mapping
          [(asc ''__init__.py'', Text (asc '''')),
           (asc ''domain'', Mapping [(asc ''__init__.py'', Text (asc ''''))]),
           (asc ''application'', Mapping [(asc ''__init__.py'', Text (asc ''''))])]),
        (asc ''integration'', Mapping [(asc ''__init__.py'', Text (asc ''''))]),
        (asc ''e2e'', Mapping [(asc ''__init__.py'', Text (asc ''''))])]),
     (asc ''docs'', Mapping
       [(asc ''README.md'', Text docs_README)])]"

definition entity_template :: "str" where
  \<open>entity_template = text_lines
    [asc ''"""'',
     [0x9886, 0x57DF, 0x5B9E, 0x4F53, 0x6A21, 0x677F],
     asc ''"""'',
     asc ''from dataclasses import dataclass'',
     [],
     [],
     asc ''@dataclass'',
     asc ''class '' @ asc ''{entity_name}'' @ asc '':'',
     asc ''    """'',
     asc ''    '' @ asc ''{entity_name}'' @ asc '' '' @ [0x805A, 0x5408, 0x6839],
     [],
     asc ''    '' @ [0x4E1A, 0x52A1, 0x89C4, 0x5219, 0xFF1A],
     asc ''    - '' @ [0x5728, 0x6B64, 0x5904, 0x63CF, 0x8FF0, 0x4E3B, 0x8981, 0x4E1A, 0x52A1, 0x89C4, 0x5219],
     asc ''    - '' @ [0x5217, 0x51FA, 0x4E0D, 0x53D8, 0x5F0F, 0x6761, 0x4EF6],
     asc ''    """'',
     asc ''    id: str'',
     asc ''    # '' @ [0x6DFB, 0x52A0, 0x5176, 0x4ED6, 0x5C5E, 0x6027],
     [],
     asc ''    def __post_init__(self):'',
     asc ''        """'' @ [0x9A8C, 0x8BC1, 0x4E1A, 0x52A1, 0x4E0D, 0x53D8, 0x5F0F] @ asc ''"""'',
     asc ''        if not self.id:'',
     asc ''            raise ValueError("ID cannot be empty")'',
     [],
     asc ''    def business_operation(self) -> None:'',
     asc ''        """'' @ [0x63CF, 0x8FF0, 0x4E1A, 0x52A1, 0x64CD, 0x4F5C] @ asc ''"""'',
     asc ''        # '' @ [0x5B9E, 0x73B0, 0x4E1A, 0x52A1, 0x903B, 0x8F91],
     asc ''        pass'']\<close>

definition repository_interface_template :: "str" where
  \<open>repository_interface_template = text_lines
    [asc ''"""'',
     [0x4ED3, 0x50A8, 0x63A5, 0x53E3, 0x6A21, 0x677F],
     asc ''"""'',
     asc ''from abc import ABC, abstractmethod'',
     asc ''from typing import Optional, List'',
     asc ''from .'' @ asc ''{entity_name_lower}'' @ asc '' import '' @ asc ''{entity_name}'',
     [],
     [],
     asc ''class '' @ asc ''{entity_name}'' @ asc ''Repository(ABC):'',
     asc ''    """'',
     asc ''    '' @ asc ''{entity_name}'' @ [0x4ED3, 0x50A8, 0x62BD, 0x8C61, 0x63A5, 0x53E3],
     asc ''    '' @ [0x5B9A, 0x4E49, 0x6570, 0x636E, 0x8BBF, 0x95EE, 0x5408, 0x7EA6],
     asc ''    """'',
     [],
     asc ''    @abstractmethod'',
     asc ''    def save(self, '' @ asc ''{entity_name_lower}'' @ asc '': '' @ asc ''{entity_name}'' @ asc '') -> None:'',
     asc ''        """'' @ [0x4FDD, 0x5B58] @ asc ''{entity_name_lower}'' @ asc ''"""'',
     asc ''        pass'',
     [],
     asc ''    @abstractmethod'',
     asc ''    def find_by_id('',
     asc ''        self, '' @ asc ''{entity_name_lower}'' @ asc ''_id: str'',
     asc ''    ) -> Optional['' @ asc ''{entity_name}'' @ asc '']:'',
     asc ''        """'' @ [0x901A, 0x8FC7] @ asc ''ID'' @ [0x67E5, 0x627E] @ asc ''{entity_name_lower}'' @ asc ''"""'',
     asc ''        pass'',
     [],
     asc ''    @abstractmethod'',
     asc ''    def find_all(self) -> List['' @ asc ''{entity_name}'' @ asc '']:'',
     asc ''        """'' @ [0x67E5, 0x627E, 0x6240, 0x6709] @ asc ''{entity_name_lower}'' @ asc ''"""'',
     asc ''        pass'',
     [],
     asc ''    @abstractmethod'',
     asc ''    def delete(self, '' @ asc ''{entity_name_lower}'' @ asc ''_id: str) -> bool:'',
     asc ''        """'' @ [0x5220, 0x9664] @ asc ''{entity_name_lower}'' @ asc ''"""'',
     asc ''        pass'']\<close>

definition pyproject_toml :: "str" where
  \<open>pyproject_toml = text_lines
    [asc ''[build-system]'',
     asc ''requires = ["setuptools>=45", "wheel"]'',
     asc ''build-backend = "setuptools.build_meta"'',
     [],
     asc ''[project]'',
     asc ''name = "'' @ asc ''{project_name}'' @ asc ''"'',
     asc ''version = "0.1.0"'',
     asc ''description = "Clean DDD Python'' @ [0x9879, 0x76EE] @ asc ''"'',
     asc ''authors = ['',
     asc ''    '' @ asc ''{{'' @ asc ''name = "Your Name", email = "your.email@example.com"'' @ asc ''}}'' @ asc '','',
     asc '']'',
     asc ''dependencies = ['',
     asc ''    "dataclasses-json>=0.5.7",'',
     asc ''    "pydantic>=1.10.0",'',
     asc '']'',
     [],
     asc ''[project.optional-dependencies]'',
     asc ''dev = ['',
     asc ''    "pytest>=7.0.0",'',
     asc ''    "pytest-cov>=4.0.0",'',
     asc ''    "mypy>=1.0.0",'',
     asc ''    "ruff>=0.1.0",'',
     asc '']'',
     [],
     asc ''[tool.pytest.ini_options]'',
     asc ''testpaths = ["tests"]'',
     asc ''python_files = ["test_*.py"]'',
     asc ''python_classes = ["Test*"]'',
     asc ''python_functions = ["test_*"]'',
     asc ''addopts = "--cov=src --cov-report=html --cov-report=term-missing"'',
     [],
     asc ''[tool.ruff]'',
     asc ''target-version = "py38"'',
     asc ''line-length = 88'',
     asc ''select = ["E", "W", "F", "I", "B", "C4", "UP"]'',
     asc ''ignore = ["E501", "B008"]'',
     [],
     asc ''[tool.ruff.per-file-ignores]'',
     asc ''"__init__.py" = ["F401"]'',
     asc ''"tests/*" = ["B011"]'']\<close>

definition README_md :: "str" where
  \<open>README_md = text_lines
    [asc ''# '' @ asc ''{project_name}'',
     [],
     [0x57FA, 0x4E8E] @ asc ''Clean DDD'' @ [0x67B6, 0x6784, 0x7684] @ asc ''Python'' @ [0x9879, 0x76EE],
     [],
     asc ''## '' @ [0x9879, 0x76EE, 0x7ED3, 0x6784],
     [],
     asc ''```'',
     asc ''src/'',
     [0x251C, 0x2500, 0x2500] @ asc '' domain/          # '' @ [0x9886, 0x57DF, 0x5C42] @ asc '' - '' @ [0x4E1A, 0x52A1, 0x903B, 0x8F91, 0x6838, 0x5FC3],
     [0x251C, 0x2500, 0x2500] @ asc '' application/     # '' @ [0x5E94, 0x7528, 0x5C42] @ asc '' - '' @ [0x7528, 0x4F8B, 0x7F16, 0x6392],
     [0x251C, 0x2500, 0x2500] @ asc '' infrastructure/  # '' @ [0x57FA, 0x7840, 0x8BBE, 0x65BD, 0x5C42] @ asc '' - '' @ [0x6280, 0x672F, 0x5B9E, 0x73B0],
     [0x2514, 0x2500, 0x2500] @ asc '' presentation/    # '' @ [0x8868, 0x73B0, 0x5C42] @ asc '' - '' @ [0x5916, 0x90E8, 0x63A5, 0x53E3],
     asc ''```'',
     [],
     asc ''## '' @ [0x5FEB, 0x901F, 0x5F00, 0x59CB],
     [],
     asc ''1. '' @ [0x5B89, 0x88C5, 0x4F9D, 0x8D56] @ asc '':'',
     asc ''```bash'',
     asc ''pip install -e .'',
     asc ''pip install -e ".[dev]"'',
     asc ''```'',
     [],
     asc ''2. '' @ [0x8FD0, 0x884C, 0x6D4B, 0x8BD5] @ asc '':'',
     asc ''```bash'',
     asc ''pytest'',
     asc ''```'',
     [],
     asc ''## '' @ [0x5F00, 0x53D1, 0x6307, 0x5357],
     [],
     [0x9075, 0x5FAA] @ asc ''Clean DDD'' @ [0x539F, 0x5219, 0xFF1A],
     asc ''- '' @ [0x4F9D, 0x8D56, 0x6307, 0x5411, 0x5185, 0x5C42] @ asc '' (Presentation '' @ [0x2192] @ asc '' Application '' @ [0x2192] @ asc '' Domain)'',
     asc ''- '' @ [0x9886, 0x57DF, 0x5C42, 0x4FDD, 0x6301, 0x7EAF, 0x51C0, 0xFF0C, 0x65E0, 0x5916, 0x90E8, 0x4F9D, 0x8D56],
     asc ''- '' @ [0x901A, 0x8FC7, 0x63A5, 0x53E3, 0x5B9E, 0x73B0, 0x4F9D, 0x8D56, 0x5012, 0x7F6E],
     asc ''- '' @ [0x5173, 0x6CE8, 0x70B9, 0x660E, 0x786E, 0x5206, 0x79BB]]\<close>

definition TEMPLATES :: "(str \<times> str) list" where
  "TEMPLATES =
    [(asc ''entity_template.py'', entity_template),
     (asc ''repository_interface_template.py'', repository_interface_template),
     (asc ''pyproject.toml'', pyproject_toml),
     (asc ''README.md'', README_md)]"

section \<open>The file system\<close>

text \<open>
  A path is the list of its components, relative to the working directory \<open>[]\<close>; the
  file system maps each path that exists to a directory or to a file with its text.
  \<open>base / name\<close> appends one component, which is what \<open>pathlib\<close> does for the names
  of the program (single components, none of them \<open>.\<close> or \<open>..\<close>), and \<open>Path name\<close> is
  the relative path of one component. A file system is \<open>well_formed\<close> when the working
  directory exists and everything that exists lies in a directory.
\<close>

type_synonym path = "str list"

datatype node = Dir | File str

type_synonym filesystem = "path \<Rightarrow> node option"

definition Path :: "str \<Rightarrow> path" where
  "Path name = [name]"

definition parent :: "path \<Rightarrow> path" where
  "parent p = butlast p"

definition path_exists :: "filesystem \<Rightarrow> path \<Rightarrow> bool" where
  "path_exists fs p \<longleftrightarrow> fs p \<noteq> None"

definition well_formed :: "filesystem \<Rightarrow> bool" where
  "well_formed fs \<longleftrightarrow> fs [] = Some Dir \<and> (\<forall>p name. fs (p @ [name]) \<noteq> None \<longrightarrow> fs p = Some Dir)"

text \<open>
  \<open>os.mkdir\<close>: the path must not exist and its parent must be a directory.
\<close>

definition os_mkdir :: "filesystem \<Rightarrow> path \<Rightarrow> error + filesystem" where
  "os_mkdir fs p =
     (if fs p \<noteq> None then Inl FileExistsError
      else case fs (parent p) of
             Some Dir \<Rightarrow> Inr (fs(p \<mapsto> Dir))
           | Some (File t) \<Rightarrow> Inl NotADirectoryError
           | None \<Rightarrow> Inl FileNotFoundError)"

text \<open>
  \<open>Path.mkdir(exist_ok=True)\<close>: an error of \<open>os.mkdir\<close> is dropped when the path is a
  directory already.
\<close>

definition mkdir_exist_ok :: "filesystem \<Rightarrow> path \<Rightarrow> error + filesystem" where
  "mkdir_exist_ok fs p =
     (case os_mkdir fs p of
        Inr fs' \<Rightarrow> Inr fs'
      | Inl e \<Rightarrow> if fs p = Some Dir then Inr fs else Inl e)"

text \<open>
  \<open>Path.mkdir(parents=True, exist_ok=True)\<close>, as \<open>pathlib\<close> writes it: try \<open>os.mkdir\<close>;
  on FileNotFoundError make the parent the same way and then the path itself; drop any
  other error when the path is a directory already.
\<close>

function mkdir_parents :: "filesystem \<Rightarrow> path \<Rightarrow> error + filesystem" where
  "mkdir_parents fs p =
     (case os_mkdir fs p of
        Inr fs' \<Rightarrow> Inr fs'
      | Inl e \<Rightarrow>
          if e = FileNotFoundError then
            (if p = [] then Inl e
             else case mkdir_parents fs (parent p) of
                    Inl e' \<Rightarrow> Inl e'
                  | Inr fs1 \<Rightarrow> mkdir_exist_ok fs1 p)
          else if fs p = Some Dir then Inr fs else Inl e)"
  by pat_completeness auto
termination
  by (relation "measure (\<lambda>(fs, p). length p)") (auto simp: parent_def)

text \<open>
  \<open>Path.write_text\<close> opens the file for writing and replaces its content: a directory
  cannot be opened, and a new file needs its parent directory.
\<close>

definition write_text :: "filesystem \<Rightarrow> path \<Rightarrow> str \<Rightarrow> error + filesystem" where
  "write_text fs p data =
     (case fs p of
        Some Dir \<Rightarrow> Inl IsADirectoryError
      | Some (File old) \<Rightarrow> Inr (fs(p \<mapsto> File data))
      | None \<Rightarrow>
          (case fs (parent p) of
             Some Dir \<Rightarrow> Inr (fs(p \<mapsto> File data))
           | Some (File t) \<Rightarrow> Inl NotADirectoryError
           | None \<Rightarrow> Inl FileNotFoundError))"

text \<open>
  \<open>shutil.rmtree\<close> removes a directory and everything below it.
\<close>

definition rmtree :: "filesystem \<Rightarrow> path \<Rightarrow> error + filesystem" where
  "rmtree fs p =
     (case fs p of
        Some Dir \<Rightarrow> Inr (\<lambda>q. if prefix p q then None else fs q)
      | Some (File t) \<Rightarrow> Inl NotADirectoryError
      | None \<Rightarrow> Inl FileNotFoundError)"

section \<open>Program state, failures of the environment, output\<close>

text \<open>
  The lines the program prints, one constructor for each \<open>print\<close> of the source, with
  the values it interpolates.
\<close>

datatype message =
    Usage | Example | CreatingProject str | MainEntity str | DirectoryExists str
  | CreatingStructure | GeneratingTemplates | CreatingConfig | Created | NextSteps str
  | CreationError error

text \<open>
  The state is the file system, the lines printed so far and the number of calls made
  to the file system so far. The environment is a set of call numbers at which the call
  fails with an OSError instead of doing its work (permission denied, disk full, a
  failure injected by a test); \<open>no_faults\<close> is the environment in which no call fails
  for such a reason. A call that raises leaves the file system as it was.
\<close>

record state =
  files :: filesystem
  stdout :: "message list"
  clock :: nat

type_synonym faults = "nat \<Rightarrow> bool"

definition no_faults :: faults where
  "no_faults = (\<lambda>k. False)"

datatype outcome = Done state | Raised error state

fun state_of :: "outcome \<Rightarrow> state" where
  "state_of (Done s) = s"
| "state_of (Raised e s) = s"

definition print :: "message \<Rightarrow> state \<Rightarrow> state" where
  "print m s = s\<lparr>stdout := stdout s @ [m]\<rparr>"

definition fs_call :: "faults \<Rightarrow> (filesystem \<Rightarrow> error + filesystem) \<Rightarrow> state \<Rightarrow> outcome" where
  "fs_call flt f s =
     (let s' = s\<lparr>clock := Suc (clock s)\<rparr>
      in if flt (clock s) then Raised OSError s'
         else case f (files s) of
                Inl e \<Rightarrow> Raised e s'
              | Inr fs' \<Rightarrow> Done (s'\<lparr>files := fs'\<rparr>))"

section \<open>The structure materializer\<close>

text \<open>
  The branch of \<open>create_directory_structure\<close> for a file: make the parent directory,
  then write the content unless the path exists and the content is blank.
\<close>

definition create_file :: "faults \<Rightarrow> path \<Rightarrow> str \<Rightarrow> state \<Rightarrow> outcome" where
  "create_file flt path content s =
     (case fs_call flt (\<lambda>fs. mkdir_parents fs (parent path)) s of
        Raised e s1 \<Rightarrow> Raised e s1
      | Done s1 \<Rightarrow>
          if \<not> path_exists (files s1) path \<or> strip content \<noteq> []
          then fs_call flt (\<lambda>fs. write_text fs path content) s1
          else Done s1)"

fun create_directory_structure :: "faults \<Rightarrow> path \<Rightarrow> structure_spec \<Rightarrow> state \<Rightarrow> outcome" where
  "create_directory_structure flt base_path [] s = Done s"
| "create_directory_structure flt base_path ((name, Mapping sub) # rest) s =
     (case fs_call flt (\<lambda>fs. mkdir_parents fs (base_path @ [name])) s of
        Raised e s1 \<Rightarrow> Raised e s1
      | Done s1 \<Rightarrow>
          (case create_directory_structure flt (base_path @ [name]) sub s1 of
             Raised e s2 \<Rightarrow> Raised e s2
           | Done s2 \<Rightarrow> create_directory_structure flt base_path rest s2))"
| "create_directory_structure flt base_path ((name, Text content) # rest) s =
     (case create_file flt (base_path @ [name]) content s of
        Raised e s1 \<Rightarrow> Raised e s1
      | Done s1 \<Rightarrow> create_directory_structure flt base_path rest s1)"

section \<open>The template renderer\<close>

text \<open>
  The loop of \<open>generate_template_files\<close> over the items of the catalog, and the function
  itself. \<open>str.lower\<close> needs the case tables of Unicode, which are not part of the
  program: it is the parameter \<open>lower\<close>.
\<close>

fun render_templates ::
  "faults \<Rightarrow> path \<Rightarrow> (str \<rightharpoonup> str) \<Rightarrow> (str \<times> str) list \<Rightarrow> state \<Rightarrow> outcome" where
  "render_templates flt templates_dir kw [] s = Done s"
| "render_templates flt templates_dir kw ((template_name, template_content) # rest) s =
     (case format kw template_content of
        Inl e \<Rightarrow> Raised e s
      | Inr content \<Rightarrow>
          (case fs_call flt (\<lambda>fs. write_text fs (templates_dir @ [template_name]) content) s of
             Raised e s1 \<Rightarrow> Raised e s1
           | Done s1 \<Rightarrow> render_templates flt templates_dir kw rest s1))"

definition generate_template_files ::
  "faults \<Rightarrow> (str \<Rightarrow> str) \<Rightarrow> path \<Rightarrow> str \<Rightarrow> str \<Rightarrow> state \<Rightarrow> outcome" where
  "generate_template_files flt lower project_path entity_name project_name s =
     (let entity_name_lower = lower entity_name;
          templates_dir = project_path @ [asc ''templates'']
      in case fs_call flt (\<lambda>fs. mkdir_exist_ok fs templates_dir) s of
           Raised e s1 \<Rightarrow> Raised e s1
         | Done s1 \<Rightarrow>
             render_templates flt templates_dir
               (kwargs entity_name entity_name_lower project_name) TEMPLATES s1)"

section \<open>The entry point\<close>

text \<open>
  The loop of \<open>main\<close> over \<open>["pyproject.toml", "README.md"]\<close>: \<open>TEMPLATES[file_name]\<close> is
  a KeyError for a name that is not in the catalog.
\<close>

fun write_project_files ::
  "faults \<Rightarrow> (str \<Rightarrow> str) \<Rightarrow> path \<Rightarrow> str \<Rightarrow> str \<Rightarrow> str list \<Rightarrow> state \<Rightarrow> outcome" where
  "write_project_files flt lower project_path entity_name project_name [] s = Done s"
| "write_project_files flt lower project_path entity_name project_name (file_name # rest) s =
     (case map_of TEMPLATES file_name of
        None \<Rightarrow> Raised (KeyError file_name) s
      | Some template \<Rightarrow>
          (case format (kwargs entity_name (lower entity_name) project_name) template of
             Inl e \<Rightarrow> Raised e s
           | Inr content \<Rightarrow>
               (case fs_call flt (\<lambda>fs. write_text fs (project_path @ [file_name]) content) s of
                  Raised e s1 \<Rightarrow> Raised e s1
                | Done s1 \<Rightarrow>
                    write_project_files flt lower project_path entity_name project_name rest s1)))"

text \<open>
  The body of the \<open>try\<close> statement of \<open>main\<close>.
\<close>

definition try_body ::
  "faults \<Rightarrow> (str \<Rightarrow> str) \<Rightarrow> path \<Rightarrow> str \<Rightarrow> str \<Rightarrow> state \<Rightarrow> outcome" where
  "try_body flt lower project_path entity_name project_name s =
     (case create_directory_structure flt project_path PROJECT_STRUCTURE
             (print CreatingStructure s) of
        Raised e s1 \<Rightarrow> Raised e s1
      | Done s1 \<Rightarrow>
          (case generate_template_files flt lower project_path entity_name project_name
                  (print GeneratingTemplates s1) of
             Raised e s2 \<Rightarrow> Raised e s2
           | Done s2 \<Rightarrow>
               (case write_project_files flt lower project_path entity_name project_name
                       [asc ''pyproject.toml'', asc ''README.md''] (print CreatingConfig s2) of
                  Raised e s3 \<Rightarrow> Raised e s3
                | Done s3 \<Rightarrow> Done (print (NextSteps project_name) (print Created s3)))))"

text \<open>
  The \<open>except Exception\<close> handler: report, remove the project directory when it exists.
  An error of \<open>rmtree\<close> itself would leave the tree and end the process with status 1
  as well.
\<close>

definition cleanup :: "path \<Rightarrow> state \<Rightarrow> state" where
  "cleanup project_path s =
     (if path_exists (files s) project_path
      then (case rmtree (files s) project_path of
              Inr fs' \<Rightarrow> s\<lparr>files := fs'\<rparr>
            | Inl e \<Rightarrow> s)
      else s)"

text \<open>
  \<open>main\<close> on the argument vector \<open>sys.argv\<close> (the program name first): the exit status
  of the process and the final state. \<open>sys.exit(1)\<close> and an exception that nothing
  catches (one raised by \<open>project_path.mkdir()\<close>, before the \<open>try\<close>) both end the
  process with status 1; returning from \<open>main\<close> ends it with status 0.
\<close>

definition main :: "faults \<Rightarrow> (str \<Rightarrow> str) \<Rightarrow> str list \<Rightarrow> state \<Rightarrow> nat \<times> state" where
  "main flt lower argv s =
     (if length argv \<noteq> 3 then (1, print Example (print Usage s))
      else
        let project_name = argv ! 1;
            entity_name = argv ! 2;
            s0 = print (MainEntity entity_name) (print (CreatingProject project_name) s);
            project_path = Path project_name
        in if path_exists (files s0) project_path
           then (1, print (DirectoryExists project_name) s0)
           else case fs_call flt (\<lambda>fs. os_mkdir fs project_path) s0 of
                  Raised e s1 \<Rightarrow> (1, s1)
                | Done s1 \<Rightarrow>
                    (case try_body flt lower project_path entity_name project_name s1 of
                       Done s2 \<Rightarrow> (0, s2)
                     | Raised e s2 \<Rightarrow> (1, cleanup project_path (print (CreationError e) s2))))"

section \<open>Paths of a structure specification and its effect on an empty directory\<close>

text \<open>
  The paths that the entries of a structure specification name below a root; the file
  system that results from laying the specification out over one; the number of calls
  to the file system that takes when none of the paths exists; and what it means that
  a specification is in place: every entry for a directory is a directory, and every
  entry for a file exists in a directory and, if its content is not blank, holds it.
\<close>

fun structure_paths :: "path \<Rightarrow> structure_spec \<Rightarrow> path list" where
  "structure_paths base [] = []"
| "structure_paths base ((name, Mapping sub) # rest) =
     (base @ [name]) # structure_paths (base @ [name]) sub @ structure_paths base rest"
| "structure_paths base ((name, Text content) # rest) =
     (base @ [name]) # structure_paths base rest"

fun lay_out :: "path \<Rightarrow> structure_spec \<Rightarrow> filesystem \<Rightarrow> filesystem" where
  "lay_out base [] fs = fs"
| "lay_out base ((name, Mapping sub) # rest) fs =
     lay_out base rest (lay_out (base @ [name]) sub (fs(base @ [name] \<mapsto> Dir)))"
| "lay_out base ((name, Text content) # rest) fs =
     lay_out base rest (fs(base @ [name] \<mapsto> File content))"

fun calls :: "structure_spec \<Rightarrow> nat" where
  "calls [] = 0"
| "calls ((name, Mapping sub) # rest) = 1 + calls sub + calls rest"
| "calls ((name, Text content) # rest) = 2 + calls rest"

fun in_place :: "filesystem \<Rightarrow> path \<Rightarrow> structure_spec \<Rightarrow> bool" where
  "in_place fs base [] = True"
| "in_place fs base ((name, Mapping sub) # rest) =
     (fs (base @ [name]) = Some Dir \<and> in_place fs (base @ [name]) sub \<and> in_place fs base rest)"
| "in_place fs base ((name, Text content) # rest) =
     (fs base = Some Dir \<and> fs (base @ [name]) \<noteq> None \<and>
      (strip content = [] \<or> fs (base @ [name]) = Some (File content)) \<and>
      in_place fs base rest)"

text \<open>
  How a call may change what is at a path \<open>q\<close> that it does not write: not at all, or,
  when \<open>q\<close> is missing and leads to \<open>base\<close>, by making it a directory.
\<close>

definition kept_or_made :: "path \<Rightarrow> path \<Rightarrow> filesystem \<Rightarrow> filesystem \<Rightarrow> bool" where
  "kept_or_made base q fs fs' \<longleftrightarrow>
     fs' q = fs q \<or> (fs q = None \<and> prefix q base \<and> fs' q = Some Dir)"

section \<open>The rendered catalog\<close>

text \<open>
  The text of each template with every placeholder replaced by the value supplied for
  it, and the escaped braces of \<open>pyproject.toml\<close> as single braces.
\<close>

definition rendered_entity_template :: "str \<Rightarrow> str" where
  \<open>rendered_entity_template entity_name = text_lines
    [asc ''"""'',
     [0x9886, 0x57DF, 0x5B9E, 0x4F53, 0x6A21, 0x677F],
     asc ''"""'',
     asc ''from dataclasses import dataclass'',
     [],
     [],
     asc ''@dataclass'',
     asc ''class '' @ entity_name @ asc '':'',
     asc ''    """'',
     asc ''    '' @ entity_name @ asc '' '' @ [0x805A, 0x5408, 0x6839],
     [],
     asc ''    '' @ [0x4E1A, 0x52A1, 0x89C4, 0x5219, 0xFF1A],
     asc ''    - '' @ [0x5728, 0x6B64, 0x5904, 0x63CF, 0x8FF0, 0x4E3B, 0x8981, 0x4E1A, 0x52A1, 0x89C4, 0x5219],
     asc ''    - '' @ [0x5217, 0x51FA, 0x4E0D, 0x53D8, 0x5F0F, 0x6761, 0x4EF6],
     asc ''    """'',
     asc ''    id: str'',
     asc ''    # '' @ [0x6DFB, 0x52A0, 0x5176, 0x4ED6, 0x5C5E, 0x6027],
     [],
     asc ''    def __post_init__(self):'',
     asc ''        """'' @ [0x9A8C, 0x8BC1, 0x4E1A, 0x52A1, 0x4E0D, 0x53D8, 0x5F0F] @ asc ''"""'',
     asc ''        if not self.id:'',
     asc ''            raise ValueError("ID cannot be empty")'',
     [],
     asc ''    def business_operation(self) -> None:'',
     asc ''        """'' @ [0x63CF, 0x8FF0, 0x4E1A, 0x52A1, 0x64CD, 0x4F5C] @ asc ''"""'',
     asc ''        # '' @ [0x5B9E, 0x73B0, 0x4E1A, 0x52A1, 0x903B, 0x8F91],
     asc ''        pass'']\<close>

definition rendered_repository_interface_template :: "str \<Rightarrow> str \<Rightarrow> str" where
  \<open>rendered_repository_interface_template entity_name entity_name_lower = text_lines
    [asc ''"""'',
     [0x4ED3, 0x50A8, 0x63A5, 0x53E3, 0x6A21, 0x677F],
     asc ''"""'',
     asc ''from abc import ABC, abstractmethod'',
     asc ''from typing import Optional, List'',
     asc ''from .'' @ entity_name_lower @ asc '' import '' @ entity_name,
     [],
     [],
     asc ''class '' @ entity_name @ asc ''Repository(ABC):'',
     asc ''    """'',
     asc ''    '' @ entity_name @ [0x4ED3, 0x50A8, 0x62BD, 0x8C61, 0x63A5, 0x53E3],
     asc ''    '' @ [0x5B9A, 0x4E49, 0x6570, 0x636E, 0x8BBF, 0x95EE, 0x5408, 0x7EA6],
     asc ''    """'',
     [],
     asc ''    @abstractmethod'',
     asc ''    def save(self, '' @ entity_name_lower @ asc '': '' @ entity_name @ asc '') -> None:'',
     asc ''        """'' @ [0x4FDD, 0x5B58] @ entity_name_lower @ asc ''"""'',
     asc ''        pass'',
     [],
     asc ''    @abstractmethod'',
     asc ''    def find_by_id('',
     asc ''        self, '' @ entity_name_lower @ asc ''_id: str'',
     asc ''    ) -> Optional['' @ entity_name @ asc '']:'',
     asc ''        """'' @ [0x901A, 0x8FC7] @ asc ''ID'' @ [0x67E5, 0x627E] @ entity_name_lower @ asc ''"""'',
     asc ''        pass'',
     [],
     asc ''    @abstractmethod'',
     asc ''    def find_all(self) -> List['' @ entity_name @ asc '']:'',
     asc ''        """'' @ [0x67E5, 0x627E, 0x6240, 0x6709] @ entity_name_lower @ asc ''"""'',
     asc ''        pass'',
     [],
     asc ''    @abstractmethod'',
     asc ''    def delete(self, '' @ entity_name_lower @ asc ''_id: str) -> bool:'',
     asc ''        """'' @ [0x5220, 0x9664] @ entity_name_lower @ asc ''"""'',
     asc ''        pass'']\<close>

definition rendered_pyproject_toml :: "str \<Rightarrow> str" where
  \<open>rendered_pyproject_toml project_name = text_lines
    [asc ''[build-system]'',
     asc ''requires = ["setuptools>=45", "wheel"]'',
     asc ''build-backend = "setuptools.build_meta"'',
     [],
     asc ''[project]'',
     asc ''name = "'' @ project_name @ asc ''"'',
     asc ''version = "0.1.0"'',
     asc ''description = "Clean DDD Python'' @ [0x9879, 0x76EE] @ asc ''"'',
     asc ''authors = ['',
     asc ''    '' @ asc ''{'' @ asc ''name = "Your Name", email = "your.email@example.com"'' @ asc ''}'' @ asc '','',
     asc '']'',
     asc ''dependencies = ['',
     asc ''    "dataclasses-json>=0.5.7",'',
     asc ''    "pydantic>=1.10.0",'',
     asc '']'',
     [],
     asc ''[project.optional-dependencies]'',
     asc ''dev = ['',
     asc ''    "pytest>=7.0.0",'',
     asc ''    "pytest-cov>=4.0.0",'',
     asc ''    "mypy>=1.0.0",'',
     asc ''    "ruff>=0.1.0",'',
     asc '']'',
     [],
     asc ''[tool.pytest.ini_options]'',
     asc ''testpaths = ["tests"]'',
     asc ''python_files = ["test_*.py"]'',
     asc ''python_classes = ["Test*"]'',
     asc ''python_functions = ["test_*"]'',
     asc ''addopts = "--cov=src --cov-report=html --cov-report=term-missing"'',
     [],
     asc ''[tool.ruff]'',
     asc ''target-version = "py38"'',
     asc ''line-length = 88'',
     asc ''select = ["E", "W", "F", "I", "B", "C4", "UP"]'',
     asc ''ignore = ["E501", "B008"]'',
     [],
     asc ''[tool.ruff.per-file-ignores]'',
     asc ''"__init__.py" = ["F401"]'',
     asc ''"tests/*" = ["B011"]'']\<close>

definition rendered_README_md :: "str \<Rightarrow> str" where
  \<open>rendered_README_md project_name = text_lines
    [asc ''# '' @ project_name,
     [],
     [0x57FA, 0x4E8E] @ asc ''Clean DDD'' @ [0x67B6, 0x6784, 0x7684] @ asc ''Python'' @ [0x9879, 0x76EE],
     [],
     asc ''## '' @ [0x9879, 0x76EE, 0x7ED3, 0x6784],
     [],
     asc ''```'',
     asc ''src/'',
     [0x251C, 0x2500, 0x2500] @ asc '' domain/          # '' @ [0x9886, 0x57DF, 0x5C42] @ asc '' - '' @ [0x4E1A, 0x52A1, 0x903B, 0x8F91, 0x6838, 0x5FC3],
     [0x251C, 0x2500, 0x2500] @ asc '' application/     # '' @ [0x5E94, 0x7528, 0x5C42] @ asc '' - '' @ [0x7528, 0x4F8B, 0x7F16, 0x6392],
     [0x251C, 0x2500, 0x2500] @ asc '' infrastructure/  # '' @ [0x57FA, 0x7840, 0x8BBE, 0x65BD, 0x5C42] @ asc '' - '' @ [0x6280, 0x672F, 0x5B9E, 0x73B0],
     [0x2514, 0x2500, 0x2500] @ asc '' presentation/    # '' @ [0x8868, 0x73B0, 0x5C42] @ asc '' - '' @ [0x5916, 0x90E8, 0x63A5, 0x53E3],
     asc ''```'',
     [],
     asc ''## '' @ [0x5FEB, 0x901F, 0x5F00, 0x59CB],
     [],
     asc ''1. '' @ [0x5B89, 0x88C5, 0x4F9D, 0x8D56] @ asc '':'',
     asc ''```bash'',
     asc ''pip install -e .'',
     asc ''pip install -e ".[dev]"'',
     asc ''```'',
     [],
     asc ''2. '' @ [0x8FD0, 0x884C, 0x6D4B, 0x8BD5] @ asc '':'',
     asc ''```bash'',
     asc ''pytest'',
     asc ''```'',
     [],
     asc ''## '' @ [0x5F00, 0x53D1, 0x6307, 0x5357],
     [],
     [0x9075, 0x5FAA] @ asc ''Clean DDD'' @ [0x539F, 0x5219, 0xFF1A],
     asc ''- '' @ [0x4F9D, 0x8D56, 0x6307, 0x5411, 0x5185, 0x5C42] @ asc '' (Presentation '' @ [0x2192] @ asc '' Application '' @ [0x2192] @ asc '' Domain)'',
     asc ''- '' @ [0x9886, 0x57DF, 0x5C42, 0x4FDD, 0x6301, 0x7EAF, 0x51C0, 0xFF0C, 0x65E0, 0x5916, 0x90E8, 0x4F9D, 0x8D56],
     asc ''- '' @ [0x901A, 0x8FC7, 0x63A5, 0x53E3, 0x5B9E, 0x73B0, 0x4F9D, 0x8D56, 0x5012, 0x7F6E],
     asc ''- '' @ [0x5173, 0x6CE8, 0x70B9, 0x660E, 0x786E, 0x5206, 0x79BB]]\<close>

section \<open>The project that a run generates\<close>

text \<open>
  The file system after a run of the generator over a project directory \<open>root\<close> that
  was empty: the structure specification laid out, the directory \<open>templates\<close> with the
  rendering of every entry of the catalog, and the two project files. \<open>generated_paths\<close>
  are the paths of that tree relative to the project directory, which is \<open>[]\<close> itself.
\<close>

definition generated_files ::
  "(str \<Rightarrow> str) \<Rightarrow> path \<Rightarrow> str \<Rightarrow> str \<Rightarrow> filesystem \<Rightarrow> filesystem" where
  "generated_files lower root entity_name project_name fs =
     (lay_out root PROJECT_STRUCTURE fs)
       (root @ [asc ''templates''] \<mapsto> Dir,
        root @ [asc ''templates'', asc ''entity_template.py''] \<mapsto>
          File (rendered_entity_template entity_name),
        root @ [asc ''templates'', asc ''repository_interface_template.py''] \<mapsto>
          File (rendered_repository_interface_template entity_name (lower entity_name)),
        root @ [asc ''templates'', asc ''pyproject.toml''] \<mapsto>
          File (rendered_pyproject_toml project_name),
        root @ [asc ''templates'', asc ''README.md''] \<mapsto> File (rendered_README_md project_name),
        root @ [asc ''pyproject.toml''] \<mapsto> File (rendered_pyproject_toml project_name),
        root @ [asc ''README.md''] \<mapsto> File (rendered_README_md project_name))"




section \<open>Concrete inputs\<close>

text \<open>
  A disk that holds nothing but the working directory, a disk on which \<open>shop\<close> exists
  already, and the lower-casing of ASCII letters, which is what \<open>str.lower\<close> does on
  ASCII text.
\<close>

definition empty_disk :: state where
  "empty_disk = \<lparr>files = [[] \<mapsto> Dir], stdout = [], clock = 0\<rparr>"

definition shop_disk :: state where
  "shop_disk = \<lparr>files = [[] \<mapsto> Dir, [asc ''shop''] \<mapsto> Dir], stdout = [], clock = 0\<rparr>"

definition ascii_lower :: "str \<Rightarrow> str" where
  "ascii_lower s = map (\<lambda>c. if 65 \<le> c \<and> c \<le> 90 then c + 32 else c) s"

definition shop_argv :: "str list" where
  "shop_argv = [asc ''project_template.py'', asc ''shop'', asc ''Order'']"




section \<open>Rendering the catalog\<close>

lemma emit_Inr: "emit v (Inr out) = Inr (v @ out)"
  by (simp add: emit_def)

lemma emit_emit: "emit a (emit b x) = emit (a @ b) x"
  by (simp add: emit_def split: sum.splits)

text \<open>Text without braces is copied as it is.\<close>

lemma format_brace_free: "brace_free l \<Longrightarrow> format kw (l @ r) = emit l (format kw r)"
proof (induction l)
  case Nil
  show ?case by (simp add: emit_def split: sum.splits)
next
  case (Cons c l)
  then show ?case by (simp add: brace_free_def emit_emit)
qed

lemma format_newline: "format kw [10] = Inr [10]"
  by (simp add: lbrace_def rbrace_def emit_def)

lemma of_char_lbrace: "((of_char c :: nat) = lbrace) = (c = CHR ''{'')"
  using of_char_eq_iff [of c "CHR ''{''", where ?'a = nat] by (simp add: lbrace_def)

lemma of_char_rbrace: "((of_char c :: nat) = rbrace) = (c = CHR ''}'')"
  using of_char_eq_iff [of c "CHR ''}''", where ?'a = nat] by (simp add: rbrace_def)

lemma brace_free_asc:
  "brace_free (asc s) = list_all (\<lambda>c. c \<noteq> CHR ''{'' \<and> c \<noteq> CHR ''}'') s"
  by (induction s) (simp_all add: brace_free_def asc_def of_char_lbrace of_char_rbrace)

lemma brace_free_Cons: "brace_free (c # cs) = (c \<noteq> 123 \<and> c \<noteq> 125 \<and> brace_free cs)"
  by (simp add: brace_free_def lbrace_def rbrace_def)

lemma brace_free_Nil: "brace_free []"
  by (simp add: brace_free_def)

lemma brace_free_append: "brace_free (a @ b) = (brace_free a \<and> brace_free b)"
  by (simp add: brace_free_def)

text \<open>The three placeholders and the two escapes, wherever they stand.\<close>

lemma format_entity_name:
  "format (kwargs e el p) (asc ''{entity_name}'' @ r) = emit e (format (kwargs e el p) r)"
  by (simp add: asc_def lbrace_def rbrace_def get_field_def simple_field_def kwargs_def)

lemma format_entity_name_lower:
  "format (kwargs e el p) (asc ''{entity_name_lower}'' @ r) = emit el (format (kwargs e el p) r)"
  by (simp add: asc_def lbrace_def rbrace_def get_field_def simple_field_def kwargs_def)

lemma format_project_name:
  "format (kwargs e el p) (asc ''{project_name}'' @ r) = emit p (format (kwargs e el p) r)"
  by (simp add: asc_def lbrace_def rbrace_def get_field_def simple_field_def kwargs_def)

lemma format_lbrace2: "format kw (asc ''{{'' @ r) = emit (asc ''{'') (format kw r)"
  by (simp add: asc_def lbrace_def rbrace_def)

lemma format_rbrace2: "format kw (asc ''}}'' @ r) = emit (asc ''}'') (format kw r)"
  by (simp add: asc_def lbrace_def rbrace_def)

lemmas format_steps =
  format_brace_free format_newline format_entity_name format_entity_name_lower
  format_project_name format_lbrace2 format_rbrace2 brace_free_asc brace_free_Cons
  brace_free_Nil emit_Inr text_lines_def lbrace_def rbrace_def

lemma format_entity_template:
  "format (kwargs e el p) entity_template = Inr (rendered_entity_template e)"
  by (simp add: entity_template_def rendered_entity_template_def format_steps)

lemma format_repository_interface_template:
  "format (kwargs e el p) repository_interface_template =
     Inr (rendered_repository_interface_template e el)"
  by (simp add: repository_interface_template_def rendered_repository_interface_template_def
      format_steps)

lemma format_pyproject_toml:
  "format (kwargs e el p) pyproject_toml = Inr (rendered_pyproject_toml p)"
  by (simp add: pyproject_toml_def rendered_pyproject_toml_def format_steps)

lemma format_README_md:
  "format (kwargs e el p) README_md = Inr (rendered_README_md p)"
  by (simp add: README_md_def rendered_README_md_def format_steps)

lemmas format_catalog =
  format_entity_template format_repository_interface_template format_pyproject_toml
  format_README_md

text \<open>Braces of the rendered texts.\<close>

lemmas brace_steps =
  brace_free_append brace_free_asc brace_free_Cons brace_free_Nil text_lines_def

lemma brace_free_rendered_entity_template:
  "brace_free e \<Longrightarrow> brace_free (rendered_entity_template e)"
  by (simp add: rendered_entity_template_def brace_steps)

lemma brace_free_rendered_repository_interface_template:
  "brace_free e \<Longrightarrow> brace_free el \<Longrightarrow> brace_free (rendered_repository_interface_template e el)"
  by (simp add: rendered_repository_interface_template_def brace_steps)

lemma brace_free_rendered_README_md:
  "brace_free p \<Longrightarrow> brace_free (rendered_README_md p)"
  by (simp add: rendered_README_md_def brace_steps)

lemma braces_of_brace_free: "brace_free s \<Longrightarrow> braces_of s = []"
  by (induction s) (simp_all add: braces_of_def brace_free_def)

lemma braces_of_append: "braces_of (a @ b) = braces_of a @ braces_of b"
  by (simp add: braces_of_def)

lemma braces_of_asc:
  "braces_of (asc s) = asc (filter (\<lambda>c. c = CHR ''{'' \<or> c = CHR ''}'') s)"
  by (induction s) (simp_all add: braces_of_def asc_def of_char_lbrace of_char_rbrace)

lemma braces_of_Cons:
  "braces_of (c # cs) = (if c = 123 \<or> c = 125 then c # braces_of cs else braces_of cs)"
  by (simp add: braces_of_def lbrace_def rbrace_def)

lemma braces_of_Nil: "braces_of [] = []"
  by (simp add: braces_of_def)

lemma asc_Nil: "asc [] = []"
  by (simp add: asc_def)

lemma asc_lbrace: "asc ''{'' = [lbrace]"
  by (simp add: asc_def lbrace_def)

lemma asc_rbrace: "asc ''}'' = [rbrace]"
  by (simp add: asc_def rbrace_def)

lemma braces_of_rendered_pyproject_toml:
  assumes "brace_free p"
  shows "braces_of (rendered_pyproject_toml p) = [lbrace, rbrace]"
proof -
  have p: "braces_of p = []"
    using assms by (rule braces_of_brace_free)
  show ?thesis
    by (simp add: rendered_pyproject_toml_def text_lines_def braces_of_append braces_of_asc
        braces_of_Cons braces_of_Nil p asc_Nil asc_lbrace asc_rbrace lbrace_def rbrace_def)
qed

section \<open>Calls to the file system\<close>

declare mkdir_parents.simps [simp del]

lemma parent_snoc: "parent (p @ [name]) = p"
  by (simp add: parent_def)

lemma prefix_parent: "prefix q (parent p) \<Longrightarrow> prefix q p"
  unfolding parent_def using prefix_order.trans prefixeq_butlast by blast

lemma os_mkdir_Inr: "os_mkdir fs p = Inr fs' \<Longrightarrow> fs p = None \<and> fs' = fs(p \<mapsto> Dir)"
  by (auto simp: os_mkdir_def split: if_splits option.splits node.splits)

lemma mkdir_exist_ok_Inr:
  "mkdir_exist_ok fs p = Inr fs' \<Longrightarrow> fs' = fs \<or> (fs p = None \<and> fs' = fs(p \<mapsto> Dir))"
  by (auto simp: mkdir_exist_ok_def dest: os_mkdir_Inr split: sum.splits if_splits)

lemma write_text_Inr:
  "write_text fs p d = Inr fs' \<Longrightarrow> fs p \<noteq> Some Dir \<and> fs' = fs(p \<mapsto> File d)"
  by (auto simp: write_text_def split: option.splits node.splits)

lemma kept_or_made_refl: "kept_or_made base q fs fs"
  by (simp add: kept_or_made_def)

lemma kept_or_made_trans:
  "kept_or_made base q fs fs1 \<Longrightarrow> kept_or_made base q fs1 fs2 \<Longrightarrow> kept_or_made base q fs fs2"
  by (auto simp: kept_or_made_def)

lemma kept_or_made_snoc:
  "kept_or_made (base @ [name]) q fs fs' \<Longrightarrow> q \<noteq> base @ [name] \<Longrightarrow> kept_or_made base q fs fs'"
  by (auto simp: kept_or_made_def)

lemma mkdir_parents_kept_or_made:
  "mkdir_parents fs p = Inr fs' \<Longrightarrow> kept_or_made p q fs fs'"
proof (induction fs p arbitrary: fs' rule: mkdir_parents.induct)
  case (1 fs p)
  show ?case
  proof (cases "os_mkdir fs p")
    case (Inr fs0)
    then have "fs' = fs0"
      using "1.prems" by (simp add: mkdir_parents.simps [of fs p])
    then show ?thesis
      using os_mkdir_Inr [OF Inr] by (auto simp: kept_or_made_def)
  next
    case (Inl e)
    show ?thesis
    proof (cases "e = FileNotFoundError")
      case False
      then have "fs' = fs"
        using "1.prems" Inl by (simp add: mkdir_parents.simps [of fs p] split: if_splits)
      then show ?thesis by (simp add: kept_or_made_def)
    next
      case True
      then have ne: "p \<noteq> []"
        using "1.prems" Inl by (auto simp: mkdir_parents.simps [of fs p])
      then obtain fs1 where up: "mkdir_parents fs (parent p) = Inr fs1"
        and me: "mkdir_exist_ok fs1 p = Inr fs'"
        using "1.prems" Inl True
        by (auto simp: mkdir_parents.simps [of fs p] split: sum.splits)
      have a: "kept_or_made (parent p) q fs fs1"
        using "1.IH" [OF Inl True ne up] .
      have b: "kept_or_made p q fs fs1"
        using a prefix_parent by (auto simp: kept_or_made_def)
      have c: "kept_or_made p q fs1 fs'"
        using mkdir_exist_ok_Inr [OF me] by (auto simp: kept_or_made_def split: if_splits)
      show ?thesis
        using b c by (rule kept_or_made_trans)
    qed
  qed
qed

lemma mkdir_parents_Dir: "mkdir_parents fs p = Inr fs' \<Longrightarrow> fs' p = Some Dir"
  by (subst (asm) mkdir_parents.simps)
    (auto simp: mkdir_exist_ok_def dest!: os_mkdir_Inr split: sum.splits if_splits)

lemma mkdir_parents_exists: "fs p = Some Dir \<Longrightarrow> mkdir_parents fs p = Inr fs"
  by (subst mkdir_parents.simps) (simp add: os_mkdir_def)

lemma mkdir_parents_new:
  "fs p = None \<Longrightarrow> fs (parent p) = Some Dir \<Longrightarrow> mkdir_parents fs p = Inr (fs(p \<mapsto> Dir))"
  by (subst mkdir_parents.simps) (simp add: os_mkdir_def)

lemma files_print: "files (print m s) = files s"
  by (simp add: print_def)

lemma fs_call_cases:
  obtains e where "fs_call flt f s = Raised e (s\<lparr>clock := Suc (clock s)\<rparr>)"
  | fs' where "f (files s) = Inr fs'"
      and "fs_call flt f s = Done (s\<lparr>clock := Suc (clock s), files := fs'\<rparr>)"
  by (cases "flt (clock s)"; cases "f (files s)") (auto simp: fs_call_def Let_def)

lemma fs_call_no_faults:
  "fs_call no_faults f s =
     (case f (files s) of
        Inl e \<Rightarrow> Raised e (s\<lparr>clock := Suc (clock s)\<rparr>)
      | Inr fs' \<Rightarrow> Done (s\<lparr>clock := Suc (clock s), files := fs'\<rparr>))"
  by (simp add: fs_call_def no_faults_def Let_def)

section \<open>What the materializer leaves alone\<close>

lemma create_file_kept_or_made:
  assumes "q \<noteq> path"
  shows "kept_or_made (parent path) q (files s) (files (state_of (create_file flt path content s)))"
proof (rule fs_call_cases [of flt "\<lambda>fs. mkdir_parents fs (parent path)" s])
  fix e
  assume "fs_call flt (\<lambda>fs. mkdir_parents fs (parent path)) s = Raised e (s\<lparr>clock := Suc (clock s)\<rparr>)"
  then show ?thesis
    by (simp add: create_file_def kept_or_made_refl)
next
  fix fs1
  assume mk: "mkdir_parents (files s) (parent path) = Inr fs1"
    and call: "fs_call flt (\<lambda>fs. mkdir_parents fs (parent path)) s =
      Done (s\<lparr>clock := Suc (clock s), files := fs1\<rparr>)"
  let ?s1 = "s\<lparr>clock := Suc (clock s), files := fs1\<rparr>"
  have a: "kept_or_made (parent path) q (files s) fs1"
    using mk by (rule mkdir_parents_kept_or_made)
  have b: "kept_or_made (parent path) q fs1
    (files (state_of (fs_call flt (\<lambda>fs. write_text fs path content) ?s1)))"
  proof (rule fs_call_cases [of flt "\<lambda>fs. write_text fs path content" ?s1])
    fix e
    assume "fs_call flt (\<lambda>fs. write_text fs path content) ?s1 =
      Raised e (?s1\<lparr>clock := Suc (clock ?s1)\<rparr>)"
    then show ?thesis by (simp add: kept_or_made_refl)
  next
    fix fs2
    assume "write_text (files ?s1) path content = Inr fs2"
      and "fs_call flt (\<lambda>fs. write_text fs path content) ?s1 =
        Done (?s1\<lparr>clock := Suc (clock ?s1), files := fs2\<rparr>)"
    then show ?thesis
      using assms write_text_Inr [of fs1 path content fs2] by (simp add: kept_or_made_def)
  qed
  show ?thesis
    using a b call by (auto simp: create_file_def kept_or_made_refl intro: kept_or_made_trans)
qed

lemma create_directory_structure_kept_or_made:
  "q \<notin> set (structure_paths base st) \<Longrightarrow>
   kept_or_made base q (files s) (files (state_of (create_directory_structure flt base st s)))"
proof (induction flt base st s rule: create_directory_structure.induct)
  case (1 flt base s)
  show ?case by (simp add: kept_or_made_refl)
next
  case (2 flt base name sub rest s)
  let ?path = "base @ [name]"
  from "2.prems" have q: "q \<noteq> ?path" "q \<notin> set (structure_paths ?path sub)"
    "q \<notin> set (structure_paths base rest)"
    by simp_all
  show ?case
  proof (rule fs_call_cases [of flt "\<lambda>fs. mkdir_parents fs ?path" s])
    fix e
    assume "fs_call flt (\<lambda>fs. mkdir_parents fs ?path) s = Raised e (s\<lparr>clock := Suc (clock s)\<rparr>)"
    then show ?thesis by (simp add: kept_or_made_refl)
  next
    fix fs1
    assume mk: "mkdir_parents (files s) ?path = Inr fs1"
      and call: "fs_call flt (\<lambda>fs. mkdir_parents fs ?path) s =
        Done (s\<lparr>clock := Suc (clock s), files := fs1\<rparr>)"
    let ?s1 = "s\<lparr>clock := Suc (clock s), files := fs1\<rparr>"
    have a: "kept_or_made base q (files s) (files ?s1)"
      using mkdir_parents_kept_or_made [OF mk, of q] q(1) by (simp add: kept_or_made_snoc)
    have b: "kept_or_made base q (files ?s1)
      (files (state_of (create_directory_structure flt ?path sub ?s1)))"
      using "2.IH"(1) [OF call q(2)] q(1) by (rule kept_or_made_snoc)
    show ?thesis
    proof (cases "create_directory_structure flt ?path sub ?s1")
      case (Raised e s2)
      then show ?thesis
        using a b call by (auto intro: kept_or_made_trans)
    next
      case (Done s2)
      have c: "kept_or_made base q (files s2)
        (files (state_of (create_directory_structure flt base rest s2)))"
        using "2.IH"(2) [OF call Done q(3)] .
      have "kept_or_made base q (files s) (files s2)"
        using a b Done by (auto intro: kept_or_made_trans)
      then show ?thesis
        using c call Done by (auto intro: kept_or_made_trans)
    qed
  qed
next
  case (3 flt base name content rest s)
  let ?path = "base @ [name]"
  from "3.prems" have q: "q \<noteq> ?path" "q \<notin> set (structure_paths base rest)"
    by simp_all
  have a: "kept_or_made base q (files s) (files (state_of (create_file flt ?path content s)))"
    using create_file_kept_or_made [OF q(1), of s flt content] by (simp add: parent_snoc)
  show ?case
  proof (cases "create_file flt ?path content s")
    case (Raised e s1)
    then show ?thesis using a by simp
  next
    case (Done s1)
    have "kept_or_made base q (files s1)
      (files (state_of (create_directory_structure flt base rest s1)))"
      using "3.IH" [OF Done q(2)] .
    then show ?thesis
      using a Done by (auto intro: kept_or_made_trans)
  qed
qed

section \<open>Directories stay\<close>

lemma fs_call_keeps_dir:
  assumes "\<And>fs fs'. f fs = Inr fs' \<Longrightarrow> fs q = Some Dir \<Longrightarrow> fs' q = Some Dir"
    and "files s q = Some Dir"
  shows "files (state_of (fs_call flt f s)) q = Some Dir"
  by (rule fs_call_cases [of flt f s]) (use assms in auto)

lemma mkdir_parents_keeps_dir:
  "mkdir_parents fs p = Inr fs' \<Longrightarrow> fs q = Some Dir \<Longrightarrow> fs' q = Some Dir"
  using mkdir_parents_kept_or_made [of fs p fs' q] by (auto simp: kept_or_made_def)

lemma write_text_keeps_dir:
  "write_text fs p d = Inr fs' \<Longrightarrow> fs q = Some Dir \<Longrightarrow> fs' q = Some Dir"
  by (auto dest!: write_text_Inr)


lemma create_file_keeps_dir:
  assumes "files s q = Some Dir"
  shows "files (state_of (create_file flt path content s)) q = Some Dir"
proof -
  let ?r = "fs_call flt (\<lambda>fs. mkdir_parents fs (parent path)) s"
  have a: "files (state_of ?r) q = Some Dir"
    using mkdir_parents_keeps_dir assms by (rule fs_call_keeps_dir)
  show ?thesis
  proof (cases ?r)
    case (Raised e s1)
    then show ?thesis using a by (simp add: create_file_def)
  next
    case (Done s1)
    then have "files s1 q = Some Dir" using a by simp
    then have "files (state_of (fs_call flt (\<lambda>fs. write_text fs path content) s1)) q = Some Dir"
      using write_text_keeps_dir by (intro fs_call_keeps_dir)
    then show ?thesis
      using Done \<open>files s1 q = Some Dir\<close> by (simp add: create_file_def)
  qed
qed

lemma create_directory_structure_keeps_dir:
  "files s q = Some Dir \<Longrightarrow>
   files (state_of (create_directory_structure flt base st s)) q = Some Dir"
proof (induction flt base st s rule: create_directory_structure.induct)
  case (1 flt base s)
  then show ?case by simp
next
  case (2 flt base name sub rest s)
  let ?r = "fs_call flt (\<lambda>fs. mkdir_parents fs (base @ [name])) s"
  have a: "files (state_of ?r) q = Some Dir"
    using mkdir_parents_keeps_dir "2.prems" by (rule fs_call_keeps_dir)
  show ?case
  proof (cases ?r)
    case (Raised e s1)
    then show ?thesis using a by simp
  next
    case r1: (Done s1)
    then have b: "files (state_of (create_directory_structure flt (base @ [name]) sub s1)) q = Some Dir"
      using a "2.IH"(1) [of s1] by simp
    show ?thesis
    proof (cases "create_directory_structure flt (base @ [name]) sub s1")
      case (Raised e s2)
      then show ?thesis using b r1 by simp
    next
      case (Done s2)
      then show ?thesis using b r1 "2.IH"(2) [OF r1 Done] by simp
    qed
  qed
next
  case (3 flt base name content rest s)
  have a: "files (state_of (create_file flt (base @ [name]) content s)) q = Some Dir"
    using "3.prems" by (rule create_file_keeps_dir)
  show ?case
  proof (cases "create_file flt (base @ [name]) content s")
    case (Raised e s1)
    then show ?thesis using a by simp
  next
    case (Done s1)
    then show ?thesis using a "3.IH" [OF Done] by simp
  qed
qed





section \<open>A specification that is in place\<close>

lemma structure_paths_prefix:
  "q \<in> set (structure_paths base st) \<Longrightarrow> \<exists>name \<in> fst ` set st. prefix (base @ [name]) q"
proof (induction base st rule: structure_paths.induct)
  case (1 base)
  then show ?case by simp
next
  case (2 base name sub rest)
  from "2.prems" consider "q = base @ [name]" | "q \<in> set (structure_paths (base @ [name]) sub)"
    | "q \<in> set (structure_paths base rest)"
    by auto
  then show ?case
  proof cases
    case 1
    then show ?thesis by simp
  next
    case 2
    then obtain m where "prefix ((base @ [name]) @ [m]) q"
      using "2.IH"(1) by blast
    then have "prefix (base @ [name]) q"
      by (rule append_prefixD)
    then show ?thesis by simp
  next
    case 3
    then obtain m where "m \<in> fst ` set rest" "prefix (base @ [m]) q"
      using "2.IH"(2) by blast
    then show ?thesis by auto
  qed
next
  case (3 base name content rest)
  from "3.prems" consider "q = base @ [name]" | "q \<in> set (structure_paths base rest)"
    by auto
  then show ?case
  proof cases
    case 1
    then show ?thesis by simp
  next
    case 2
    then obtain m where "m \<in> fst ` set rest" "prefix (base @ [m]) q"
      using "3.IH" by blast
    then show ?thesis by auto
  qed
qed

lemma prefix_snoc_same: "prefix (b @ [n]) q \<Longrightarrow> prefix (b @ [m]) q \<Longrightarrow> n = m"
  by (auto simp: prefix_def)

lemma in_place_cong:
  "in_place fs base st \<Longrightarrow>
   (\<And>q. prefix base q \<Longrightarrow> fs' q = fs q) \<Longrightarrow> in_place fs' base st"
proof (induction fs base st rule: in_place.induct)
  case (1 fs base)
  show ?case by simp
next
  case (2 fs base name sub rest)
  have "in_place fs' (base @ [name]) sub"
  proof (rule "2.IH"(1))
    show "in_place fs (base @ [name]) sub" using "2.prems"(1) by simp
    fix q assume "prefix (base @ [name]) q"
    then have "prefix base q" by (rule append_prefixD)
    then show "fs' q = fs q" by (rule "2.prems"(2))
  qed
  moreover have "in_place fs' base rest"
    using "2.IH"(2) "2.prems" by simp
  ultimately show ?case
    using "2.prems" by simp
next
  case (3 fs base name content rest)
  have "in_place fs' base rest"
    using "3.IH" "3.prems" by simp
  then show ?case
    using "3.prems" by simp
qed

text \<open>Running the materializer over a specification that is in place changes nothing.\<close>

lemma create_file_in_place:
  assumes "files s (parent path) = Some Dir" and "files s path \<noteq> None"
    and "strip content = [] \<or> files s path = Some (File content)"
  shows "\<exists>s'. create_file no_faults path content s = Done s' \<and> files s' = files s \<and>
    stdout s' = stdout s"
proof (cases "strip content = []")
  case True
  then show ?thesis
    using assms by (simp add: create_file_def fs_call_no_faults mkdir_parents_exists path_exists_def)
next
  case False
  then have f: "files s path = Some (File content)"
    using assms(3) by simp
  then have "(files s)(path \<mapsto> File content) = files s"
    by (rule fun_upd_idem)
  then show ?thesis
    using assms(1) f False
    by (simp add: create_file_def fs_call_no_faults mkdir_parents_exists write_text_def)
qed

lemma create_directory_structure_in_place:
  "in_place (files s) base st \<Longrightarrow>
   \<exists>s'. create_directory_structure no_faults base st s = Done s' \<and> files s' = files s \<and>
     stdout s' = stdout s"
proof (induction no_faults base st s rule: create_directory_structure.induct)
  case (1 base s)
  show ?case by simp
next
  case (2 base name sub rest s)
  let ?s1 = "s\<lparr>clock := Suc (clock s), files := files s\<rparr>"
  have call: "fs_call no_faults (\<lambda>fs. mkdir_parents fs (base @ [name])) s = Done ?s1"
    using "2.prems" by (simp add: fs_call_no_faults mkdir_parents_exists)
  have "in_place (files ?s1) (base @ [name]) sub"
    using "2.prems" by simp
  from "2.hyps"(1) [OF call this] obtain s2
    where s2: "create_directory_structure no_faults (base @ [name]) sub ?s1 = Done s2"
      "files s2 = files s" "stdout s2 = stdout s"
    by auto
  have "in_place (files s2) base rest"
    using "2.prems" s2(2) by simp
  from "2.hyps"(2) [OF call s2(1) this] obtain s3
    where "create_directory_structure no_faults base rest s2 = Done s3"
      "files s3 = files s2" "stdout s3 = stdout s2"
    by auto
  then show ?case
    using call s2 by simp
next
  case (3 base name content rest s)
  have "\<exists>s'. create_file no_faults (base @ [name]) content s = Done s' \<and> files s' = files s \<and>
    stdout s' = stdout s"
    using "3.prems" by (intro create_file_in_place) (simp_all add: parent_snoc)
  then obtain s1 where s1: "create_file no_faults (base @ [name]) content s = Done s1"
    "files s1 = files s" "stdout s1 = stdout s"
    by auto
  have "in_place (files s1) base rest"
    using "3.prems" s1(2) by simp
  from "3.hyps" [OF s1(1) this] obtain s2
    where "create_directory_structure no_faults base rest s1 = Done s2"
      "files s2 = files s1" "stdout s2 = stdout s1"
    by auto
  then show ?case
    using s1 by simp
qed

text \<open>After a run that returned, the specification is in place.\<close>

lemma create_file_Done:
  assumes "create_file flt path content s = Done s'"
  shows "files s' (parent path) = Some Dir \<and> files s' path \<noteq> None \<and>
    (strip content = [] \<or> files s' path = Some (File content))"
proof (rule fs_call_cases [of flt "\<lambda>fs. mkdir_parents fs (parent path)" s])
  fix e
  assume "fs_call flt (\<lambda>fs. mkdir_parents fs (parent path)) s = Raised e (s\<lparr>clock := Suc (clock s)\<rparr>)"
  then show ?thesis using assms by (simp add: create_file_def)
next
  fix fs1
  assume mk: "mkdir_parents (files s) (parent path) = Inr fs1"
    and call: "fs_call flt (\<lambda>fs. mkdir_parents fs (parent path)) s =
      Done (s\<lparr>clock := Suc (clock s), files := fs1\<rparr>)"
  let ?s1 = "s\<lparr>clock := Suc (clock s), files := fs1\<rparr>"
  have d: "fs1 (parent path) = Some Dir"
    using mk by (rule mkdir_parents_Dir)
  show ?thesis
  proof (cases "\<not> path_exists fs1 path \<or> strip content \<noteq> []")
    case False
    then show ?thesis
      using assms call d by (auto simp: create_file_def path_exists_def)
  next
    case True
    then have w: "fs_call flt (\<lambda>fs. write_text fs path content) ?s1 = Done s'"
      using assms call by (simp add: create_file_def)
    show ?thesis
    proof (rule fs_call_cases [of flt "\<lambda>fs. write_text fs path content" ?s1])
      fix e
      assume "fs_call flt (\<lambda>fs. write_text fs path content) ?s1 =
        Raised e (?s1\<lparr>clock := Suc (clock ?s1)\<rparr>)"
      then show ?thesis using w by simp
    next
      fix fs2
      assume wt: "write_text (files ?s1) path content = Inr fs2"
        and "fs_call flt (\<lambda>fs. write_text fs path content) ?s1 =
          Done (?s1\<lparr>clock := Suc (clock ?s1), files := fs2\<rparr>)"
      then have "files s' = fs2" using w by auto
      moreover have "fs1 path \<noteq> Some Dir \<and> fs2 = fs1(path \<mapsto> File content)"
        using write_text_Inr [of fs1 path content fs2] wt by simp
      ultimately show ?thesis
        using d by auto
    qed
  qed
qed

lemma create_directory_structure_Mapping_Done:
  "create_directory_structure flt base ((name, Mapping sub) # rest) s = Done s' \<Longrightarrow>
   \<exists>s1 s2. fs_call flt (\<lambda>fs. mkdir_parents fs (base @ [name])) s = Done s1 \<and>
     create_directory_structure flt (base @ [name]) sub s1 = Done s2 \<and>
     create_directory_structure flt base rest s2 = Done s'"
  by (simp split: outcome.splits)

lemma create_directory_structure_Text_Done:
  "create_directory_structure flt base ((name, Text content) # rest) s = Done s' \<Longrightarrow>
   \<exists>s1. create_file flt (base @ [name]) content s = Done s1 \<and>
     create_directory_structure flt base rest s1 = Done s'"
  by (simp split: outcome.splits)

lemma structure_paths_other_name:
  assumes "name \<notin> fst ` set rest" and "prefix (base @ [name]) q"
  shows "q \<notin> set (structure_paths base rest)"
proof
  assume "q \<in> set (structure_paths base rest)"
  then obtain m where m: "m \<in> fst ` set rest" "prefix (base @ [m]) q"
    using structure_paths_prefix by blast
  have "name = m"
    using assms(2) m(2) by (rule prefix_snoc_same)
  then show False
    using assms(1) m(1) by simp
qed

lemma create_directory_structure_Done_in_place:
  "distinct_keys st \<Longrightarrow> create_directory_structure flt base st s = Done s' \<Longrightarrow>
   in_place (files s') base st"
proof (induction flt base st s arbitrary: s' rule: create_directory_structure.induct)
  case (1 flt base s)
  show ?case by simp
next
  case (2 flt base name sub rest s)
  let ?path = "base @ [name]"
  from "2.prems"(1) have dk: "name \<notin> fst ` set rest" "distinct_keys sub" "distinct_keys rest"
    by simp_all
  from create_directory_structure_Mapping_Done [OF "2.prems"(2)] obtain s1 s2
    where r1: "fs_call flt (\<lambda>fs. mkdir_parents fs ?path) s = Done s1"
      and r2: "create_directory_structure flt ?path sub s1 = Done s2"
      and r3: "create_directory_structure flt base rest s2 = Done s'"
    by blast
  have "files s1 ?path = Some Dir"
    by (rule fs_call_cases [of flt "\<lambda>fs. mkdir_parents fs ?path" s])
      (use r1 in \<open>auto dest: mkdir_parents_Dir\<close>)
  then have "files s2 ?path = Some Dir"
    using create_directory_structure_keeps_dir [of s1 ?path flt ?path sub] r2 by simp
  then have d: "files s' ?path = Some Dir"
    using create_directory_structure_keeps_dir [of s2 ?path flt base rest] r3 by simp
  have sub2: "in_place (files s2) ?path sub"
    using "2.IH"(1) [OF r1 dk(2) r2] .
  have same: "files s' q = files s2 q" if "prefix ?path q" for q
  proof -
    have "q \<notin> set (structure_paths base rest)"
      using dk(1) that by (rule structure_paths_other_name)
    then have "kept_or_made base q (files s2) (files s')"
      using create_directory_structure_kept_or_made [of q base rest s2 flt] r3 by simp
    moreover have "\<not> prefix q base"
    proof
      assume "prefix q base"
      with that have "prefix ?path base" by (rule prefix_order.trans)
      then show False by (auto simp: prefix_def)
    qed
    ultimately show ?thesis by (simp add: kept_or_made_def)
  qed
  have "in_place (files s') ?path sub"
    using sub2 same by (rule in_place_cong)
  moreover have "in_place (files s') base rest"
    using "2.IH"(2) [OF r1 r2 dk(3) r3] .
  ultimately show ?case
    using d by simp
next
  case (3 flt base name content rest s)
  let ?path = "base @ [name]"
  from "3.prems"(1) have dk: "name \<notin> fst ` set rest" "distinct_keys rest"
    by simp_all
  from create_directory_structure_Text_Done [OF "3.prems"(2)] obtain s1
    where r1: "create_file flt ?path content s = Done s1"
      and r2: "create_directory_structure flt base rest s1 = Done s'"
    by blast
  have f: "files s1 base = Some Dir" "files s1 ?path \<noteq> None"
    "strip content = [] \<or> files s1 ?path = Some (File content)"
    using create_file_Done [OF r1] by (simp_all add: parent_snoc)
  have b: "files s' base = Some Dir"
    using create_directory_structure_keeps_dir [of s1 base flt base rest] f(1) r2 by simp
  have "?path \<notin> set (structure_paths base rest)"
    using dk(1) by (rule structure_paths_other_name) simp
  then have "kept_or_made base ?path (files s1) (files s')"
    using create_directory_structure_kept_or_made [of ?path base rest s1 flt] r2 by simp
  then have "files s' ?path = files s1 ?path"
    using f(2) by (simp add: kept_or_made_def)
  moreover have "in_place (files s') base rest"
    using "3.IH" [OF r1 dk(2) r2] .
  ultimately show ?case
    using b f by simp
qed

section \<open>Laying a specification out over an empty directory\<close>

lemma asc_eq_iff: "asc a = asc b \<longleftrightarrow> a = b"
  unfolding asc_def by (rule inj_map_eq_map) (rule inj_of_char)

lemma lay_out_other: "q \<notin> set (structure_paths base st) \<Longrightarrow> lay_out base st fs q = fs q"
  by (induction base st fs rule: lay_out.induct) simp_all

lemma structure_paths_below:
  assumes "q \<in> set (structure_paths base st)"
  shows "strict_prefix base q"
proof -
  obtain name where "prefix (base @ [name]) q"
    using structure_paths_prefix [OF assms] by blast
  then show ?thesis
    by (auto simp: prefix_def strict_prefix_def)
qed

lemma write_text_new:
  "fs p = None \<Longrightarrow> fs (parent p) = Some Dir \<Longrightarrow> write_text fs p d = Inr (fs(p \<mapsto> File d))"
  by (simp add: write_text_def)

lemma create_directory_structure_fresh:
  "distinct_keys st \<Longrightarrow> files s base = Some Dir \<Longrightarrow>
   (\<And>name q. name \<in> fst ` set st \<Longrightarrow> prefix (base @ [name]) q \<Longrightarrow> files s q = None) \<Longrightarrow>
   create_directory_structure no_faults base st s =
     Done (s\<lparr>clock := clock s + calls st, files := lay_out base st (files s)\<rparr>)"
proof (induction no_faults base st s rule: create_directory_structure.induct)
  case (1 base s)
  show ?case by simp
next
  case (2 base name sub rest s)
  let ?path = "base @ [name]"
  from "2.prems"(1) have dk: "name \<notin> fst ` set rest" "distinct_keys sub" "distinct_keys rest"
    by simp_all
  have none: "files s ?path = None"
    using "2.prems"(3) [of name ?path] by simp
  let ?s1 = "s\<lparr>clock := Suc (clock s), files := (files s)(?path \<mapsto> Dir)\<rparr>"
  have r1: "fs_call no_faults (\<lambda>fs. mkdir_parents fs ?path) s = Done ?s1"
    using none "2.prems"(2) by (simp add: fs_call_no_faults mkdir_parents_new parent_snoc)
  have below1: "files ?s1 q = None" if "prefix (?path @ [m]) q" for m q
  proof -
    have "prefix ?path q" using that by (rule append_prefixD)
    then have "files s q = None" using "2.prems"(3) [of name q] by simp
    moreover have "q \<noteq> ?path" using that by (auto simp: prefix_def)
    ultimately show ?thesis by simp
  qed
  let ?s2 = "?s1\<lparr>clock := clock ?s1 + calls sub, files := lay_out ?path sub (files ?s1)\<rparr>"
  have r2: "create_directory_structure no_faults ?path sub ?s1 = Done ?s2"
    using "2.hyps"(1) [OF r1 dk(2)] below1 by simp
  have out2: "files ?s2 q = files s q" if "\<not> prefix ?path q" for q
  proof -
    have "q \<notin> set (structure_paths ?path sub)"
      using that structure_paths_below [of q ?path sub] by (auto simp: strict_prefix_def)
    moreover have "q \<noteq> ?path" using that by auto
    ultimately show ?thesis by (simp add: lay_out_other)
  qed
  have base2: "files ?s2 base = Some Dir"
    using out2 [of base] "2.prems"(2) by (simp add: prefix_def)
  have below2: "files ?s2 q = None" if "m \<in> fst ` set rest" "prefix (base @ [m]) q" for m q
  proof -
    have "m \<noteq> name"
      using that(1) dk(1) by blast
    then have "\<not> prefix ?path q"
      using that(2) prefix_snoc_same [of base name q m] by auto
    then have "files ?s2 q = files s q" by (rule out2)
    then show ?thesis using "2.prems"(3) [of m q] that by simp
  qed
  have r3: "create_directory_structure no_faults base rest ?s2 =
    Done (?s2\<lparr>clock := clock ?s2 + calls rest, files := lay_out base rest (files ?s2)\<rparr>)"
    using "2.hyps"(2) [OF r1 r2 dk(3) base2] below2 by blast
  show ?case
    using r1 r2 r3 by simp
next
  case (3 base name content rest s)
  let ?path = "base @ [name]"
  from "3.prems"(1) have dk: "name \<notin> fst ` set rest" "distinct_keys rest"
    by simp_all
  have none: "files s ?path = None"
    using "3.prems"(3) [of name ?path] by simp
  let ?s1 = "s\<lparr>clock := Suc (Suc (clock s)), files := (files s)(?path \<mapsto> File content)\<rparr>"
  have r1: "create_file no_faults ?path content s = Done ?s1"
    using none "3.prems"(2)
    by (simp add: create_file_def fs_call_no_faults mkdir_parents_exists parent_snoc
        path_exists_def write_text_new)
  have base1: "files ?s1 base = Some Dir"
    using "3.prems"(2) by simp
  have below1: "files ?s1 q = None" if "m \<in> fst ` set rest" "prefix (base @ [m]) q" for m q
  proof -
    have "m \<noteq> name"
      using that(1) dk(1) by blast
    then have "q \<noteq> ?path"
      using that(2) by auto
    then show ?thesis using "3.prems"(3) [of m q] that by simp
  qed
  have r2: "create_directory_structure no_faults base rest ?s1 =
    Done (?s1\<lparr>clock := clock ?s1 + calls rest, files := lay_out base rest (files ?s1)\<rparr>)"
    using "3.hyps" [OF r1 dk(2) base1] below1 by blast
  show ?case
    using r1 r2 by simp
qed

lemma well_formed_absent_below:
  assumes "well_formed fs" and "fs p = None"
  shows "fs (p @ r) = None"
proof (induction r rule: rev_induct)
  case Nil
  show ?case using assms(2) by simp
next
  case (snoc x r)
  show ?case
  proof (rule ccontr)
    assume "fs (p @ r @ [x]) \<noteq> None"
    then have "fs ((p @ r) @ [x]) \<noteq> None" by simp
    then have "fs (p @ r) = Some Dir"
      using assms(1) unfolding well_formed_def by blast
    then show False using snoc by simp
  qed
qed

section \<open>A run of the generator over a fresh project directory\<close>

lemma PROJECT_STRUCTURE_distinct_keys: "distinct_keys PROJECT_STRUCTURE"
  by (simp add: PROJECT_STRUCTURE_def asc_eq_iff)

lemma PROJECT_STRUCTURE_keys:
  "fst ` set PROJECT_STRUCTURE = {asc ''src'', asc ''tests'', asc ''docs''}"
  by (simp add: PROJECT_STRUCTURE_def)

lemma lay_out_PROJECT_STRUCTURE_other:
  assumes "\<not> prefix (root @ [asc ''src'']) q" and "\<not> prefix (root @ [asc ''tests'']) q"
    and "\<not> prefix (root @ [asc ''docs'']) q"
  shows "lay_out root PROJECT_STRUCTURE fs q = fs q"
proof (rule lay_out_other)
  show "q \<notin> set (structure_paths root PROJECT_STRUCTURE)"
  proof
    assume "q \<in> set (structure_paths root PROJECT_STRUCTURE)"
    then obtain name where "name \<in> fst ` set PROJECT_STRUCTURE" "prefix (root @ [name]) q"
      using structure_paths_prefix by blast
    then show False
      using assms by (auto simp: PROJECT_STRUCTURE_keys)
  qed
qed

lemma not_prefix_snoc: "\<not> prefix (xs @ [a]) xs"
  by (auto simp: prefix_def)

lemma parent_snoc2: "parent (root @ [a, b]) = root @ [a]"
  by (simp add: parent_def butlast_append)

lemma generate_template_files_fresh:
  assumes "files s root = Some Dir"
    and "\<And>q. prefix (root @ [asc ''templates'']) q \<Longrightarrow> files s q = None"
  shows "generate_template_files no_faults lower root e p s =
    Done (s\<lparr>clock := clock s + 5,
            files := (files s)
              (root @ [asc ''templates''] \<mapsto> Dir,
               root @ [asc ''templates'', asc ''entity_template.py''] \<mapsto>
                 File (rendered_entity_template e),
               root @ [asc ''templates'', asc ''repository_interface_template.py''] \<mapsto>
                 File (rendered_repository_interface_template e (lower e)),
               root @ [asc ''templates'', asc ''pyproject.toml''] \<mapsto>
                 File (rendered_pyproject_toml p),
               root @ [asc ''templates'', asc ''README.md''] \<mapsto> File (rendered_README_md p))\<rparr>)"
proof -
  let ?td = "root @ [asc ''templates'']"
  have a: "files s ?td = None"
    "files s (root @ [asc ''templates'', asc ''entity_template.py'']) = None"
    "files s (root @ [asc ''templates'', asc ''repository_interface_template.py'']) = None"
    "files s (root @ [asc ''templates'', asc ''pyproject.toml'']) = None"
    "files s (root @ [asc ''templates'', asc ''README.md'']) = None"
    by (simp_all add: assms(2))
  show ?thesis
    using assms(1) a
    by (simp add: generate_template_files_def TEMPLATES_def fs_call_no_faults mkdir_exist_ok_def
        os_mkdir_def parent_snoc parent_snoc2 write_text_new format_catalog asc_eq_iff)
qed

lemma write_project_files_fresh:
  assumes "files s root = Some Dir"
    and "files s (root @ [asc ''pyproject.toml'']) = None"
    and "files s (root @ [asc ''README.md'']) = None"
  shows "write_project_files no_faults lower root e p [asc ''pyproject.toml'', asc ''README.md''] s =
    Done (s\<lparr>clock := clock s + 2,
            files := (files s)
              (root @ [asc ''pyproject.toml''] \<mapsto> File (rendered_pyproject_toml p),
               root @ [asc ''README.md''] \<mapsto> File (rendered_README_md p))\<rparr>)"
  using assms
  by (simp add: TEMPLATES_def fs_call_no_faults parent_snoc write_text_new format_catalog
      asc_eq_iff)

lemma try_body_fresh:
  assumes root: "files s root = Some Dir"
    and below: "\<And>name q. prefix (root @ [name]) q \<Longrightarrow> files s q = None"
  shows "try_body no_faults lower root e p s =
    Done (s\<lparr>stdout := stdout s @
              [CreatingStructure, GeneratingTemplates, CreatingConfig, Created, NextSteps p],
            clock := clock s + calls PROJECT_STRUCTURE + 7,
            files := generated_files lower root e p (files s)\<rparr>)"
proof -
  let ?L = "lay_out root PROJECT_STRUCTURE (files s)"
  let ?s0 = "print CreatingStructure s"
  let ?s1 = "?s0\<lparr>clock := clock ?s0 + calls PROJECT_STRUCTURE, files := ?L\<rparr>"
  have "create_directory_structure no_faults root PROJECT_STRUCTURE ?s0 =
    Done (?s0\<lparr>clock := clock ?s0 + calls PROJECT_STRUCTURE,
              files := lay_out root PROJECT_STRUCTURE (files ?s0)\<rparr>)"
  proof (rule create_directory_structure_fresh)
    show "distinct_keys PROJECT_STRUCTURE"
      by (rule PROJECT_STRUCTURE_distinct_keys)
    show "files ?s0 root = Some Dir"
      using root by (simp add: print_def)
    fix name q
    assume "prefix (root @ [name]) q"
    then have "files s q = None" by (rule below)
    then show "files ?s0 q = None" by (simp add: print_def)
  qed
  then have r1: "create_directory_structure no_faults root PROJECT_STRUCTURE ?s0 = Done ?s1"
    by (simp add: print_def)
  have L_root: "?L root = Some Dir"
    using root by (simp add: lay_out_PROJECT_STRUCTURE_other not_prefix_snoc)
  have L_templates: "?L q = None" if t: "prefix (root @ [asc ''templates'']) q" for q
  proof -
    have other: "\<not> prefix (root @ [name]) q" if "name \<noteq> asc ''templates''" for name
    proof
      assume "prefix (root @ [name]) q"
      then have "name = asc ''templates''" using t by (rule prefix_snoc_same)
      then show False using that by simp
    qed
    have "?L q = files s q"
    proof (rule lay_out_PROJECT_STRUCTURE_other)
      show "\<not> prefix (root @ [asc ''src'']) q"
        by (rule other) (simp add: asc_eq_iff)
      show "\<not> prefix (root @ [asc ''tests'']) q"
        by (rule other) (simp add: asc_eq_iff)
      show "\<not> prefix (root @ [asc ''docs'']) q"
        by (rule other) (simp add: asc_eq_iff)
    qed
    moreover have "files s q = None" using t by (rule below)
    ultimately show ?thesis by simp
  qed
  let ?s2 = "print GeneratingTemplates ?s1"
  let ?T = "?L
    (root @ [asc ''templates''] \<mapsto> Dir,
     root @ [asc ''templates'', asc ''entity_template.py''] \<mapsto> File (rendered_entity_template e),
     root @ [asc ''templates'', asc ''repository_interface_template.py''] \<mapsto>
       File (rendered_repository_interface_template e (lower e)),
     root @ [asc ''templates'', asc ''pyproject.toml''] \<mapsto> File (rendered_pyproject_toml p),
     root @ [asc ''templates'', asc ''README.md''] \<mapsto> File (rendered_README_md p))"
  let ?s3 = "?s2\<lparr>clock := clock ?s2 + 5, files := ?T\<rparr>"
  have "generate_template_files no_faults lower root e p ?s2 =
    Done (?s2\<lparr>clock := clock ?s2 + 5,
            files := (files ?s2)
              (root @ [asc ''templates''] \<mapsto> Dir,
               root @ [asc ''templates'', asc ''entity_template.py''] \<mapsto>
                 File (rendered_entity_template e),
               root @ [asc ''templates'', asc ''repository_interface_template.py''] \<mapsto>
                 File (rendered_repository_interface_template e (lower e)),
               root @ [asc ''templates'', asc ''pyproject.toml''] \<mapsto>
                 File (rendered_pyproject_toml p),
               root @ [asc ''templates'', asc ''README.md''] \<mapsto> File (rendered_README_md p))\<rparr>)"
  proof (rule generate_template_files_fresh)
    show "files ?s2 root = Some Dir"
      using L_root by (simp add: print_def)
    fix q
    assume "prefix (root @ [asc ''templates'']) q"
    then have "?L q = None" by (rule L_templates)
    then show "files ?s2 q = None" by (simp add: print_def)
  qed
  then have r2: "generate_template_files no_faults lower root e p ?s2 = Done ?s3"
    by (simp add: print_def)
  let ?s4 = "print CreatingConfig ?s3"
  have T_root: "?T root = Some Dir"
    using L_root by simp
  have L_file: "?L (root @ [name]) = None"
    if "name \<noteq> asc ''src''" "name \<noteq> asc ''tests''" "name \<noteq> asc ''docs''" for name
  proof -
    have "?L (root @ [name]) = files s (root @ [name])"
      using that by (intro lay_out_PROJECT_STRUCTURE_other) simp_all
    moreover have "files s (root @ [name]) = None"
      by (rule below [of name]) simp
    ultimately show ?thesis by simp
  qed
  have "?L (root @ [asc ''pyproject.toml'']) = None"
    by (rule L_file) (simp_all add: asc_eq_iff)
  then have T_pyproject: "?T (root @ [asc ''pyproject.toml'']) = None"
    by (simp add: asc_eq_iff)
  have "?L (root @ [asc ''README.md'']) = None"
    by (rule L_file) (simp_all add: asc_eq_iff)
  then have T_README: "?T (root @ [asc ''README.md'']) = None"
    by (simp add: asc_eq_iff)
  have "write_project_files no_faults lower root e p [asc ''pyproject.toml'', asc ''README.md'']
      ?s4 =
    Done (?s4\<lparr>clock := clock ?s4 + 2,
            files := (files ?s4)
              (root @ [asc ''pyproject.toml''] \<mapsto> File (rendered_pyproject_toml p),
               root @ [asc ''README.md''] \<mapsto> File (rendered_README_md p))\<rparr>)"
  proof (rule write_project_files_fresh)
    show "files ?s4 root = Some Dir"
      using T_root by (simp add: print_def)
    show "files ?s4 (root @ [asc ''pyproject.toml'']) = None"
      using T_pyproject by (simp add: print_def)
    show "files ?s4 (root @ [asc ''README.md'']) = None"
      using T_README by (simp add: print_def)
  qed
  then have r3: "write_project_files no_faults lower root e p
      [asc ''pyproject.toml'', asc ''README.md''] ?s4 =
    Done (?s4\<lparr>clock := clock ?s4 + 2,
            files := ?T(root @ [asc ''pyproject.toml''] \<mapsto> File (rendered_pyproject_toml p),
                        root @ [asc ''README.md''] \<mapsto> File (rendered_README_md p))\<rparr>)"
    by (simp add: print_def)
  show ?thesis
    unfolding try_body_def r1 outcome.case r2 r3
    by (simp add: print_def generated_files_def)
qed

lemma main_fresh:
  assumes "well_formed (files s)" and "\<not> path_exists (files s) (Path p)"
  shows "main no_faults lower [program, p, e] s =
    (0, s\<lparr>stdout := stdout s @
            [CreatingProject p, MainEntity e, CreatingStructure, GeneratingTemplates,
             CreatingConfig, Created, NextSteps p],
          clock := clock s + calls PROJECT_STRUCTURE + 8,
          files := generated_files lower (Path p) e p ((files s)(Path p \<mapsto> Dir))\<rparr>)"
proof -
  have absent: "files s [p] = None"
    using assms(2) by (simp add: path_exists_def Path_def)
  have cwd: "files s [] = Some Dir"
    using assms(1) by (simp add: well_formed_def)
  let ?s0 = "print (MainEntity e) (print (CreatingProject p) s)"
  let ?s1 = "?s0\<lparr>clock := Suc (clock ?s0), files := (files s)([p] \<mapsto> Dir)\<rparr>"
  have r0: "fs_call no_faults (\<lambda>fs. os_mkdir fs [p]) ?s0 = Done ?s1"
    using absent cwd by (simp add: fs_call_no_faults os_mkdir_def parent_def print_def)
  have below: "files ?s1 q = None" if pre: "prefix ([p] @ [name]) q" for name q
  proof -
    obtain zs where "q = ([p] @ [name]) @ zs"
      using pre unfolding prefix_def by blast
    then have q: "q = [p] @ (name # zs)" by simp
    show ?thesis
      unfolding q using well_formed_absent_below [OF assms(1) absent, of "name # zs"]
      by (simp add: print_def)
  qed
  have r1: "try_body no_faults lower [p] e p ?s1 =
    Done (?s1\<lparr>stdout := stdout ?s1 @
              [CreatingStructure, GeneratingTemplates, CreatingConfig, Created, NextSteps p],
            clock := clock ?s1 + calls PROJECT_STRUCTURE + 7,
            files := generated_files lower [p] e p (files ?s1)\<rparr>)"
  proof (rule try_body_fresh)
    show "files ?s1 [p] = Some Dir" by simp
    fix name q
    assume "prefix ([p] @ [name]) q"
    then show "files ?s1 q = None" by (rule below)
  qed
  show ?thesis
    using assms(2) r0 r1 by (simp add: main_def Path_def print_def Let_def add.commute)
qed

section \<open>Argument and target checks of the entry point\<close>

text \<open>
  C8. Whenever the argument vector does not consist of the program name and exactly two
  arguments, \<open>main\<close> prints the usage line and the example line and exits with status
  1; the file system is the one it started with and no call to it was made.
\<close>

theorem main_usage_error:
  assumes "length argv \<noteq> 3"
  shows "main flt lower argv s = (1, s\<lparr>stdout := stdout s @ [Usage, Example]\<rparr>)"
  using assms by (simp add: main_def print_def)

theorem main_usage_error_witness:
  "length [asc ''project_template.py'', asc ''shop''] \<noteq> 3 \<and>
   main no_faults ascii_lower [asc ''project_template.py'', asc ''shop''] empty_disk =
     (1, empty_disk\<lparr>stdout := stdout empty_disk @ [Usage, Example]\<rparr>)"
  using main_usage_error [of "[asc ''project_template.py'', asc ''shop'']" no_faults ascii_lower empty_disk]
  by simp

text \<open>
  C5. With two arguments, when the path named by the project name exists already,
  \<open>main\<close> exits with status 1 after printing its two banner lines and the complaint;
  the file system is the one it started with and no call to it was made.
\<close>

theorem main_target_exists:
  assumes "length argv = 3" and "path_exists (files s) (Path (argv ! 1))"
  shows "main flt lower argv s =
    (1, s\<lparr>stdout := stdout s @
          [CreatingProject (argv ! 1), MainEntity (argv ! 2), DirectoryExists (argv ! 1)]\<rparr>)"
  using assms by (simp add: main_def print_def Let_def)

theorem main_target_exists_witness:
  "length shop_argv = 3 \<and> path_exists (files shop_disk) (Path (shop_argv ! 1)) \<and>
   main no_faults ascii_lower shop_argv shop_disk =
    (1, shop_disk\<lparr>stdout := stdout shop_disk @
          [CreatingProject (shop_argv ! 1), MainEntity (shop_argv ! 2),
           DirectoryExists (shop_argv ! 1)]\<rparr>)"
proof -
  have len: "length shop_argv = 3"
    by (simp add: shop_argv_def)
  have ex: "path_exists (files shop_disk) (Path (shop_argv ! 1))"
    by (simp add: shop_argv_def shop_disk_def path_exists_def Path_def)
  show ?thesis
    using len ex main_target_exists [OF len ex, of no_faults ascii_lower] by simp
qed

section \<open>Cleaning up after a failure\<close>



section \<open>The rule for a file entry\<close>





section \<open>Running the materializer again\<close>

text \<open>
  C6. Let the materializer return over a structure specification (a dict, so its keys
  are distinct at every level), and run it a second time with the same root and the
  same specification on the state it left, in an environment that does not fail. Then
  the second run returns as well, and it leaves every path as the first run left it: no
  file is erased and every file holds the content it held.
\<close>

theorem materializer_rerun:
  assumes "distinct_keys st"
    and "create_directory_structure flt base st s = Done s1"
  shows "\<exists>s2. create_directory_structure no_faults base st s1 = Done s2 \<and> files s2 = files s1"
proof -
  have "in_place (files s1) base st"
    using assms by (rule create_directory_structure_Done_in_place)
  then show ?thesis
    using create_directory_structure_in_place [of s1 base st] by blast
qed

theorem materializer_rerun_witness:
  "distinct_keys PROJECT_STRUCTURE \<and>
   create_directory_structure no_faults [asc ''shop''] PROJECT_STRUCTURE shop_disk =
     Done (shop_disk\<lparr>clock := clock shop_disk + calls PROJECT_STRUCTURE,
       files := lay_out [asc ''shop''] PROJECT_STRUCTURE (files shop_disk)\<rparr>) \<and>
   (\<exists>s2. create_directory_structure no_faults [asc ''shop''] PROJECT_STRUCTURE
       (shop_disk\<lparr>clock := clock shop_disk + calls PROJECT_STRUCTURE,
         files := lay_out [asc ''shop''] PROJECT_STRUCTURE (files shop_disk)\<rparr>) = Done s2 \<and>
     files s2 = lay_out [asc ''shop''] PROJECT_STRUCTURE (files shop_disk))"
proof -
  have first: "create_directory_structure no_faults [asc ''shop''] PROJECT_STRUCTURE shop_disk =
     Done (shop_disk\<lparr>clock := clock shop_disk + calls PROJECT_STRUCTURE,
       files := lay_out [asc ''shop''] PROJECT_STRUCTURE (files shop_disk)\<rparr>)"
  proof (rule create_directory_structure_fresh)
    show "distinct_keys PROJECT_STRUCTURE"
      by (rule PROJECT_STRUCTURE_distinct_keys)
    show "files shop_disk [asc ''shop''] = Some Dir"
      by (simp add: shop_disk_def)
    fix name q
    assume "prefix ([asc ''shop''] @ [name]) q"
    then show "files shop_disk q = None"
      by (auto simp: shop_disk_def prefix_def)
  qed
  show ?thesis
    using PROJECT_STRUCTURE_distinct_keys first
      materializer_rerun [OF PROJECT_STRUCTURE_distinct_keys first]
    by simp
qed

section \<open>The frame of the materializer\<close>




section \<open>What rendering does to the placeholders\<close>

lemma sublist_text_lines:
  assumes "l \<in> set ls" and "l = a @ x @ b"
  shows "sublist x (text_lines ls)"
proof -
  obtain us vs where "ls = us @ l # vs"
    using assms(1) by (meson split_list)
  then have "text_lines ls = (text_lines us @ a) @ x @ (b @ [10] @ text_lines vs)"
    using assms(2) by (simp add: text_lines_def)
  then show ?thesis
    by (metis sublist_appendI)
qed

text \<open>
  C2, as stated, promises that no brace-delimited text is left in any rendered file.
  The rendered \<open>pyproject.toml\<close> of the ordinary project \<open>shop\<close> keeps the inline table
  that the template writes with escaped braces; and a value is copied as it is, so an
  entity name that is itself written like a placeholder leaves that text in the output.
\<close>

theorem rendering_leaves_braces:
  \<open>format (kwargs (asc ''Order'') (asc ''order'') (asc ''shop'')) pyproject_toml =
     Inr (rendered_pyproject_toml (asc ''shop'')) \<and>
   sublist (asc ''{name = "Your Name", email = "your.email@example.com"}'')
     (rendered_pyproject_toml (asc ''shop'')) \<and>
   format (kwargs (asc ''{entity_name}'') (asc ''{entity_name}'') (asc ''shop'')) entity_template =
     Inr (rendered_entity_template (asc ''{entity_name}'')) \<and>
   sublist (asc ''class {entity_name}:'') (rendered_entity_template (asc ''{entity_name}''))\<close>
proof -
  have \<open>sublist (asc ''{name = "Your Name", email = "your.email@example.com"}'')
     (rendered_pyproject_toml (asc ''shop''))\<close>
    unfolding rendered_pyproject_toml_def
    by (rule sublist_text_lines [where a = "asc ''    ''" and b = "asc '',''"
          and l = \<open>asc ''    '' @ asc ''{'' @
            asc ''name = "Your Name", email = "your.email@example.com"'' @ asc ''}'' @ asc '',''\<close>])
      (simp_all add: asc_def)
  moreover have "sublist (asc ''class {entity_name}:'')
      (rendered_entity_template (asc ''{entity_name}''))"
    unfolding rendered_entity_template_def
    by (rule sublist_text_lines [where a = "[]" and b = "[]"
          and l = "asc ''class '' @ asc ''{entity_name}'' @ asc '':''"])
      (simp_all add: asc_def)
  ultimately show ?thesis
    by (simp add: format_catalog)
qed

text \<open>
  C2, as amended. For every project name and entity name, rendering each template of
  the catalog succeeds and gives the text of the template with every placeholder
  replaced by the value supplied for it and the escaped braces of \<open>pyproject.toml\<close>
  written once. When the three values contain no brace, the rendered
  \<open>entity_template.py\<close>, \<open>repository_interface_template.py\<close> and \<open>README.md\<close> contain no
  brace at all, and the braces of the rendered \<open>pyproject.toml\<close> are the one pair of
  its inline table.
\<close>

theorem catalog_rendering:
  "map (\<lambda>(name, template). format (kwargs e (lower e) p) template) TEMPLATES =
     [Inr (rendered_entity_template e),
      Inr (rendered_repository_interface_template e (lower e)),
      Inr (rendered_pyproject_toml p),
      Inr (rendered_README_md p)] \<and>
   (brace_free e \<and> brace_free (lower e) \<and> brace_free p \<longrightarrow>
      brace_free (rendered_entity_template e) \<and>
      brace_free (rendered_repository_interface_template e (lower e)) \<and>
      brace_free (rendered_README_md p) \<and>
      braces_of (rendered_pyproject_toml p) = [lbrace, rbrace])"
  by (simp add: TEMPLATES_def format_catalog brace_free_rendered_entity_template
      brace_free_rendered_repository_interface_template brace_free_rendered_README_md
      braces_of_rendered_pyproject_toml)

theorem catalog_rendering_witness:
  "brace_free (asc ''Order'') \<and> brace_free (ascii_lower (asc ''Order'')) \<and>
   brace_free (asc ''shop'') \<and>
   map (\<lambda>(name, template).
         format (kwargs (asc ''Order'') (ascii_lower (asc ''Order'')) (asc ''shop'')) template)
     TEMPLATES =
     [Inr (rendered_entity_template (asc ''Order'')),
      Inr (rendered_repository_interface_template (asc ''Order'') (ascii_lower (asc ''Order''))),
      Inr (rendered_pyproject_toml (asc ''shop'')),
      Inr (rendered_README_md (asc ''shop''))] \<and>
   brace_free (rendered_entity_template (asc ''Order'')) \<and>
   brace_free (rendered_repository_interface_template (asc ''Order'')
     (ascii_lower (asc ''Order''))) \<and>
   brace_free (rendered_README_md (asc ''shop'')) \<and>
   braces_of (rendered_pyproject_toml (asc ''shop'')) = [lbrace, rbrace]"
proof -
  have v: "brace_free (asc ''Order'')" "brace_free (ascii_lower (asc ''Order''))"
    "brace_free (asc ''shop'')"
    by (simp_all add: brace_free_def asc_def ascii_lower_def lbrace_def rbrace_def)
  show ?thesis
    using v catalog_rendering [of "asc ''Order''" ascii_lower "asc ''shop''"] by simp
qed

section \<open>The scenario of the specification\<close>

lemma well_formed_empty_disk: "well_formed (files empty_disk)"
  by (simp add: well_formed_def empty_disk_def)

text \<open>
  C7. Run with the arguments \<open>shop\<close> and \<open>Order\<close> where \<open>shop\<close> does not exist, the
  generator exits with status 0; \<open>templates/entity_template.py\<close> holds the rendered
  entity template, in which \<open>class Order:\<close> occurs; \<open>templates/repository_interface_template.py\<close>
  holds the rendered repository template, in which \<open>class OrderRepository(ABC):\<close>
  occurs; and \<open>pyproject.toml\<close> holds the rendered build configuration, in which
  \<open>name = "shop"\<close> occurs. This holds whatever \<open>str.lower\<close> makes of \<open>Order\<close>.
\<close>

theorem shop_order_scenario:
  assumes \<open>well_formed (files s)\<close> and \<open>\<not> path_exists (files s) (Path (asc ''shop''))\<close>
  shows \<open>fst (main no_faults lower shop_argv s) = 0 \<and>
    files (snd (main no_faults lower shop_argv s))
      [asc ''shop'', asc ''templates'', asc ''entity_template.py''] =
      Some (File (rendered_entity_template (asc ''Order''))) \<and>
    sublist (asc ''class Order:'') (rendered_entity_template (asc ''Order'')) \<and>
    files (snd (main no_faults lower shop_argv s))
      [asc ''shop'', asc ''templates'', asc ''repository_interface_template.py''] =
      Some (File (rendered_repository_interface_template (asc ''Order'') (lower (asc ''Order'')))) \<and>
    sublist (asc ''class OrderRepository(ABC):'')
      (rendered_repository_interface_template (asc ''Order'') (lower (asc ''Order''))) \<and>
    files (snd (main no_faults lower shop_argv s)) [asc ''shop'', asc ''pyproject.toml''] =
      Some (File (rendered_pyproject_toml (asc ''shop''))) \<and>
    sublist (asc ''name = "shop"'') (rendered_pyproject_toml (asc ''shop''))\<close>
proof -
  have run: "main no_faults lower shop_argv s =
    (0, s\<lparr>stdout := stdout s @
            [CreatingProject (asc ''shop''), MainEntity (asc ''Order''), CreatingStructure,
             GeneratingTemplates, CreatingConfig, Created, NextSteps (asc ''shop'')],
          clock := clock s + calls PROJECT_STRUCTURE + 8,
          files := generated_files lower (Path (asc ''shop'')) (asc ''Order'') (asc ''shop'')
            ((files s)(Path (asc ''shop'') \<mapsto> Dir))\<rparr>)"
    unfolding shop_argv_def using assms by (rule main_fresh)
  have a: "sublist (asc ''class Order:'') (rendered_entity_template (asc ''Order''))"
    unfolding rendered_entity_template_def
    by (rule sublist_text_lines [where a = "[]" and b = "[]"
          and l = "asc ''class '' @ asc ''Order'' @ asc '':''"])
      (simp_all add: asc_def)
  have b: "sublist (asc ''class OrderRepository(ABC):'')
      (rendered_repository_interface_template (asc ''Order'') (lower (asc ''Order'')))"
    unfolding rendered_repository_interface_template_def
    by (rule sublist_text_lines [where a = "[]" and b = "[]"
          and l = "asc ''class '' @ asc ''Order'' @ asc ''Repository(ABC):''"])
      (simp_all add: asc_def)
  have c: \<open>sublist (asc ''name = "shop"'') (rendered_pyproject_toml (asc ''shop''))\<close>
    unfolding rendered_pyproject_toml_def
    by (rule sublist_text_lines [where a = "[]" and b = "[]"
          and l = \<open>asc ''name = "'' @ asc ''shop'' @ asc ''"''\<close>])
      (simp_all add: asc_def)
  show ?thesis
    unfolding run using a b c by (simp add: generated_files_def Path_def asc_eq_iff)
qed

theorem shop_order_scenario_witness:
  \<open>well_formed (files empty_disk) \<and>
   \<not> path_exists (files empty_disk) (Path (asc ''shop'')) \<and>
   fst (main no_faults ascii_lower shop_argv empty_disk) = 0 \<and>
   files (snd (main no_faults ascii_lower shop_argv empty_disk))
     [asc ''shop'', asc ''templates'', asc ''entity_template.py''] =
     Some (File (rendered_entity_template (asc ''Order''))) \<and>
   sublist (asc ''class Order:'') (rendered_entity_template (asc ''Order'')) \<and>
   files (snd (main no_faults ascii_lower shop_argv empty_disk))
     [asc ''shop'', asc ''templates'', asc ''repository_interface_template.py''] =
     Some (File (rendered_repository_interface_template (asc ''Order'') (asc ''order''))) \<and>
   sublist (asc ''class OrderRepository(ABC):'')
     (rendered_repository_interface_template (asc ''Order'') (asc ''order'')) \<and>
   files (snd (main no_faults ascii_lower shop_argv empty_disk)) [asc ''shop'', asc ''pyproject.toml''] =
     Some (File (rendered_pyproject_toml (asc ''shop''))) \<and>
   sublist (asc ''name = "shop"'') (rendered_pyproject_toml (asc ''shop''))\<close>
proof -
  have absent: "\<not> path_exists (files empty_disk) (Path (asc ''shop''))"
    by (simp add: path_exists_def Path_def empty_disk_def)
  have low: "ascii_lower (asc ''Order'') = asc ''order''"
    by (simp add: ascii_lower_def asc_def)
  show ?thesis
    using well_formed_empty_disk absent
      shop_order_scenario [OF well_formed_empty_disk absent, of ascii_lower]
    by (simp add: low)
qed

section \<open>The tree of a generated project\<close>



lemma structure_paths_PROJECT_STRUCTURE:
  "structure_paths [] PROJECT_STRUCTURE =
    [[asc ''src''],
     [asc ''src'', asc ''__init__.py''],
     [asc ''src'', asc ''domain''],
     [asc ''src'', asc ''domain'', asc ''__init__.py''],
     [asc ''src'', asc ''domain'', asc ''entities''],
     [asc ''src'', asc ''domain'', asc ''entities'', asc ''__init__.py''],
     [asc ''src'', asc ''domain'', asc ''value_objects''],
     [asc ''src'', asc ''domain'', asc ''value_objects'', asc ''__init__.py''],
     [asc ''src'', asc ''domain'', asc ''aggregates''],
     [asc ''src'', asc ''domain'', asc ''aggregates'', asc ''__init__.py''],
     [asc ''src'', asc ''domain'', asc ''events''],
     [asc ''src'', asc ''domain'', asc ''events'', asc ''__init__.py''],
     [asc ''src'', asc ''domain'', asc ''repositories''],
     [asc ''src'', asc ''domain'', asc ''repositories'', asc ''__init__.py''],
     [asc ''src'', asc ''domain'', asc ''services''],
     [asc ''src'', asc ''domain'', asc ''services'', asc ''__init__.py''],
     [asc ''src'', asc ''application''],
     [asc ''src'', asc ''application'', asc ''__init__.py''],
     [asc ''src'', asc ''application'', asc ''commands''],
     [asc ''src'', asc ''application'', asc ''commands'', asc ''__init__.py''],
     [asc ''src'', asc ''application'', asc ''queries''],
     [asc ''src'', asc ''application'', asc ''queries'', asc ''__init__.py''],
     [asc ''src'', asc ''application'', asc ''handlers''],
     [asc ''src'', asc ''application'', asc ''handlers'', asc ''__init__.py''],
     [asc ''src'', asc ''application'', asc ''services''],
     [asc ''src'', asc ''application'', asc ''services'', asc ''__init__.py''],
     [asc ''src'', asc ''application'', asc ''dtos''],
     [asc ''src'', asc ''application'', asc ''dtos'', asc ''__init__.py''],
     [asc ''src'', asc ''infrastructure''],
     [asc ''src'', asc ''infrastructure'', asc ''__init__.py''],
     [asc ''src'', asc ''infrastructure'', asc ''persistence''],
     [asc ''src'', asc ''infrastructure'', asc ''persistence'', asc ''__init__.py''],
     [asc ''src'', asc ''infrastructure'', asc ''repositories''],
     [asc ''src'', asc ''infrastructure'', asc ''repositories'', asc ''__init__.py''],
     [asc ''src'', asc ''infrastructure'', asc ''messaging''],
     [asc ''src'', asc ''infrastructure'', asc ''messaging'', asc ''__init__.py''],
     [asc ''src'', asc ''infrastructure'', asc ''external_services''],
     [asc ''src'', asc ''infrastructure'', asc ''external_services'', asc ''__init__.py''],
     [asc ''src'', asc ''presentation''],
     [asc ''src'', asc ''presentation'', asc ''__init__.py''],
     [asc ''src'', asc ''presentation'', asc ''api''],
     [asc ''src'', asc ''presentation'', asc ''api'', asc ''__init__.py''],
     [asc ''src'', asc ''presentation'', asc ''cli''],
     [asc ''src'', asc ''presentation'', asc ''cli'', asc ''__init__.py''],
     [asc ''src'', asc ''presentation'', asc ''web''],
     [asc ''src'', asc ''presentation'', asc ''web'', asc ''__init__.py''],
     [asc ''tests''],
     [asc ''tests'', asc ''__init__.py''],
     [asc ''tests'', asc ''unit''],
     [asc ''tests'', asc ''unit'', asc ''__init__.py''],
     [asc ''tests'', asc ''unit'', asc ''domain''],
     [asc ''tests'', asc ''unit'', asc ''domain'', asc ''__init__.py''],
     [asc ''tests'', asc ''unit'', asc ''application''],
     [asc ''tests'', asc ''unit'', asc ''application'', asc ''__init__.py''],
     [asc ''tests'', asc ''integration''],
     [asc ''tests'', asc ''integration'', asc ''__init__.py''],
     [asc ''tests'', asc ''e2e''],
     [asc ''tests'', asc ''e2e'', asc ''__init__.py''],
     [asc ''docs''],
     [asc ''docs'', asc ''README.md'']]"
  by (simp add: PROJECT_STRUCTURE_def)





section \<open>The project files and their copies under templates\<close>

lemma fs_call_write_text_Done:
  assumes "fs_call flt (\<lambda>fs. write_text fs p d) s = Done s'"
  shows "files s' = (files s)(p \<mapsto> File d)"
  by (rule fs_call_cases [of flt "\<lambda>fs. write_text fs p d" s])
    (use assms in \<open>auto dest: write_text_Inr\<close>)

lemma render_templates_Cons_Done:
  assumes "render_templates flt td kw ((name, template) # rest) s = Done s'"
    and "format kw template = Inr content"
  obtains s1 where "files s1 = (files s)(td @ [name] \<mapsto> File content)"
    and "render_templates flt td kw rest s1 = Done s'"
proof -
  from assms obtain s1
    where w: "fs_call flt (\<lambda>fs. write_text fs (td @ [name]) content) s = Done s1"
      and r: "render_templates flt td kw rest s1 = Done s'"
    by (auto split: outcome.splits)
  show ?thesis
    using fs_call_write_text_Done [OF w] r by (rule that)
qed

lemma generate_template_files_Done:
  assumes "generate_template_files flt lower root e p s = Done s'"
  shows "files s' (root @ [asc ''templates'', asc ''pyproject.toml'']) =
      Some (File (rendered_pyproject_toml p)) \<and>
    files s' (root @ [asc ''templates'', asc ''README.md'']) = Some (File (rendered_README_md p))"
proof -
  let ?td = "root @ [asc ''templates'']"
  let ?kw = "kwargs e (lower e) p"
  from assms obtain s0 where r0: "render_templates flt ?td ?kw TEMPLATES s0 = Done s'"
    by (auto simp: generate_template_files_def Let_def split: outcome.splits)
  from r0 obtain s1 where r1: "render_templates flt ?td ?kw
      [(asc ''repository_interface_template.py'', repository_interface_template),
       (asc ''pyproject.toml'', pyproject_toml), (asc ''README.md'', README_md)] s1 = Done s'"
    unfolding TEMPLATES_def
    by (rule render_templates_Cons_Done [OF _ format_entity_template])
  from r1 obtain s2 where r2: "render_templates flt ?td ?kw
      [(asc ''pyproject.toml'', pyproject_toml), (asc ''README.md'', README_md)] s2 = Done s'"
    by (rule render_templates_Cons_Done [OF _ format_repository_interface_template])
  from r2 obtain s3 where f3: "files s3 = (files s2)(?td @ [asc ''pyproject.toml''] \<mapsto>
      File (rendered_pyproject_toml p))"
    and r3: "render_templates flt ?td ?kw [(asc ''README.md'', README_md)] s3 = Done s'"
    by (rule render_templates_Cons_Done [OF _ format_pyproject_toml])
  from r3 obtain s4 where f4: "files s4 = (files s3)(?td @ [asc ''README.md''] \<mapsto>
      File (rendered_README_md p))"
    and r4: "render_templates flt ?td ?kw [] s4 = Done s'"
    by (rule render_templates_Cons_Done [OF _ format_README_md])
  have "s4 = s'"
    using r4 by simp
  then show ?thesis
    using f3 f4 by (simp add: asc_eq_iff)
qed

lemma write_project_files_Done:
  assumes "write_project_files flt lower root e p [asc ''pyproject.toml'', asc ''README.md''] s =
    Done s'"
  shows "files s' = (files s)
    (root @ [asc ''pyproject.toml''] \<mapsto> File (rendered_pyproject_toml p),
     root @ [asc ''README.md''] \<mapsto> File (rendered_README_md p))"
proof -
  from assms obtain s1
    where w1: "fs_call flt (\<lambda>fs. write_text fs (root @ [asc ''pyproject.toml''])
        (rendered_pyproject_toml p)) s = Done s1"
      and w2: "fs_call flt (\<lambda>fs. write_text fs (root @ [asc ''README.md''])
        (rendered_README_md p)) s1 = Done s'"
    by (auto simp: TEMPLATES_def format_catalog asc_eq_iff split: outcome.splits)
  show ?thesis
    using fs_call_write_text_Done [OF w1] fs_call_write_text_Done [OF w2] by simp
qed

text \<open>
  C9. Whenever \<open>main\<close> exits with status 0, whatever the state it started in and
  whatever the environment: \<open>pyproject.toml\<close> in the project directory and
  \<open>templates/pyproject.toml\<close> hold the same text, the rendering of the catalog entry
  \<open>pyproject.toml\<close> with the three values of the run, and \<open>README.md\<close> and
  \<open>templates/README.md\<close> hold the rendering of the catalog entry \<open>README.md\<close>.
\<close>

theorem project_files_equal_their_templates:
  assumes "fst (main flt lower argv s) = 0"
  shows "format (kwargs (argv ! 2) (lower (argv ! 2)) (argv ! 1)) pyproject_toml =
      Inr (rendered_pyproject_toml (argv ! 1)) \<and>
    files (snd (main flt lower argv s)) (Path (argv ! 1) @ [asc ''pyproject.toml'']) =
      Some (File (rendered_pyproject_toml (argv ! 1))) \<and>
    files (snd (main flt lower argv s))
      (Path (argv ! 1) @ [asc ''templates'', asc ''pyproject.toml'']) =
      Some (File (rendered_pyproject_toml (argv ! 1))) \<and>
    format (kwargs (argv ! 2) (lower (argv ! 2)) (argv ! 1)) README_md =
      Inr (rendered_README_md (argv ! 1)) \<and>
    files (snd (main flt lower argv s)) (Path (argv ! 1) @ [asc ''README.md'']) =
      Some (File (rendered_README_md (argv ! 1))) \<and>
    files (snd (main flt lower argv s)) (Path (argv ! 1) @ [asc ''templates'', asc ''README.md'']) =
      Some (File (rendered_README_md (argv ! 1)))"
proof -
  let ?p = "argv ! 1" and ?e = "argv ! 2"
  let ?root = "Path ?p"
  from assms obtain s1 s2
    where t: "try_body flt lower ?root ?e ?p s1 = Done s2"
      and m: "main flt lower argv s = (0, s2)"
    by (auto simp: main_def Let_def split: if_splits outcome.splits)
  from t obtain sa sb sc
    where g: "generate_template_files flt lower ?root ?e ?p (print GeneratingTemplates sa) = Done sb"
      and w: "write_project_files flt lower ?root ?e ?p [asc ''pyproject.toml'', asc ''README.md'']
        (print CreatingConfig sb) = Done sc"
      and s2: "s2 = print (NextSteps ?p) (print Created sc)"
    by (auto simp: try_body_def split: outcome.splits)
  have fw: "files sc = (files sb)
    (?root @ [asc ''pyproject.toml''] \<mapsto> File (rendered_pyproject_toml ?p),
     ?root @ [asc ''README.md''] \<mapsto> File (rendered_README_md ?p))"
    using write_project_files_Done [OF w] by (simp add: files_print)
  have fg: "files sb (?root @ [asc ''templates'', asc ''pyproject.toml'']) =
      Some (File (rendered_pyproject_toml ?p))"
    "files sb (?root @ [asc ''templates'', asc ''README.md'']) = Some (File (rendered_README_md ?p))"
    using generate_template_files_Done [OF g] by simp_all
  have "files s2 = files sc"
    unfolding s2 by (simp add: files_print)
  then show ?thesis
    unfolding m using fw fg by (simp add: format_catalog asc_eq_iff)
qed

theorem project_files_equal_their_templates_witness:
  "fst (main no_faults ascii_lower shop_argv empty_disk) = 0 \<and>
   files (snd (main no_faults ascii_lower shop_argv empty_disk)) [asc ''shop'', asc ''pyproject.toml''] =
     Some (File (rendered_pyproject_toml (asc ''shop''))) \<and>
   files (snd (main no_faults ascii_lower shop_argv empty_disk))
     [asc ''shop'', asc ''templates'', asc ''pyproject.toml''] =
     Some (File (rendered_pyproject_toml (asc ''shop''))) \<and>
   files (snd (main no_faults ascii_lower shop_argv empty_disk)) [asc ''shop'', asc ''README.md''] =
     Some (File (rendered_README_md (asc ''shop''))) \<and>
   files (snd (main no_faults ascii_lower shop_argv empty_disk))
     [asc ''shop'', asc ''templates'', asc ''README.md''] =
     Some (File (rendered_README_md (asc ''shop'')))"
proof -
  have absent: "\<not> path_exists (files empty_disk) (Path (asc ''shop''))"
    by (simp add: path_exists_def Path_def empty_disk_def)
  have ok: "fst (main no_faults ascii_lower shop_argv empty_disk) = 0"
    unfolding shop_argv_def main_fresh [OF well_formed_empty_disk absent] by simp
  show ?thesis
    using ok project_files_equal_their_templates [OF ok] by (simp add: shop_argv_def Path_def)
qed

end
